theory Spec2Isabelle
  imports Main
begin

section \<open>JavaScript string primitives\<close>

text \<open>
  Strings are character lists. Only the primitives that the router and the development
  server use are embedded: \<^verbatim>\<open>split\<close> on a one-character separator, \<^verbatim>\<open>filter(Boolean)\<close>
  on an array of strings, \<^verbatim>\<open>join\<close>, \<^verbatim>\<open>startsWith\<close>, and the locale pattern
  \<^verbatim>\<open>/^[a-zA-Z]{2}(?:-[a-zA-Z]{2})?$/\<close>.
\<close>

text \<open>\<^verbatim>\<open>s.split(c)\<close>: the pieces of \<open>s\<close> between the occurrences of \<open>c\<close>; never an empty array.\<close>

fun split_on :: "char \<Rightarrow> string \<Rightarrow> string list" where
  "split_on c [] = [[]]"
| "split_on c (x # xs) =
     (if x = c then [] # split_on c xs
      else (case split_on c xs of [] \<Rightarrow> [[x]] | y # ys \<Rightarrow> (x # y) # ys))"

text \<open>\<^verbatim>\<open>s.split(c)[0]\<close>.\<close>

definition split_first :: "char \<Rightarrow> string \<Rightarrow> string" where
  "split_first c s = (case split_on c s of [] \<Rightarrow> [] | x # _ \<Rightarrow> x)"

text \<open>\<^verbatim>\<open>.filter(Boolean)\<close> on strings drops the empty ones.\<close>

definition filter_Boolean :: "string list \<Rightarrow> string list" where
  "filter_Boolean xs = filter (\<lambda>s. s \<noteq> []) xs"

fun join :: "string \<Rightarrow> string list \<Rightarrow> string" where
  "join sep [] = []"
| "join sep [x] = x"
| "join sep (x # y # ys) = x @ sep @ join sep (y # ys)"

fun startsWith :: "string \<Rightarrow> string \<Rightarrow> bool" where
  "startsWith s [] = True"
| "startsWith [] (p # ps) = False"
| "startsWith (x # xs) (p # ps) = (x = p \<and> startsWith xs ps)"

definition is_alpha :: "char \<Rightarrow> bool" where
  "is_alpha c = (let n = (of_char c :: nat) in (97 \<le> n \<and> n \<le> 122) \<or> (65 \<le> n \<and> n \<le> 90))"

definition is_digit :: "char \<Rightarrow> bool" where
  "is_digit c = (let n = (of_char c :: nat) in 48 \<le> n \<and> n \<le> 57)"

fun localePattern :: "string \<Rightarrow> bool" where
  "localePattern [a, b] = (is_alpha a \<and> is_alpha b)"
| "localePattern [a, b, d, e, f] =
     (is_alpha a \<and> is_alpha b \<and> d = CHR ''-'' \<and> is_alpha e \<and> is_alpha f)"
| "localePattern _ = False"

text \<open>\<^verbatim>\<open>stripLocaleFromPath\<close> of server/dev.ts (the router hook has a copy of it).\<close>

definition stripLocaleFromPath :: "string \<Rightarrow> string" where
  "stripLocaleFromPath pathname =
     (if pathname = [] then ''/''
      else
        let raw = split_first CHR ''#'' (split_first CHR ''?'' pathname);
            segments = filter_Boolean (split_on CHR ''/'' raw)
        in case segments of
             [] \<Rightarrow> ''/''
           | first # rest \<Rightarrow>
               if localePattern first
               then (if rest \<noteq> [] then ''/'' @ join ''/'' rest else ''/'')
               else (if startsWith raw ''/'' then raw else ''/'' @ raw))"

text \<open>Whether the first segment of a path has the shape of a locale.\<close>

definition leading_locale :: "string \<Rightarrow> bool" where
  "leading_locale p =
     (case filter_Boolean (split_on CHR ''/'' p) of [] \<Rightarrow> False | first # _ \<Rightarrow> localePattern first)"


section \<open>Route table and matcher (router/file-system.ts)\<close>

text \<open>
  The \<^verbatim>\<open>Route\<close> interface. Its optional fields are options: \<open>None\<close> is a field
  that the object literal does not set.
\<close>

record Route =
  path :: string
  component :: string
  exact :: "bool option"
  dynamic :: "bool option"
  params :: "string list option"
  catchAllOptional :: "bool option"

text \<open>Truthiness of an optional boolean field (\<^verbatim>\<open>undefined\<close> and \<^verbatim>\<open>false\<close> are falsy).\<close>

definition truthy_flag :: "bool option \<Rightarrow> bool" where
  "truthy_flag b = (b = Some True)"

text \<open>
  A \<^verbatim>\<open>Record<string, string>\<close> that starts as the object literal \<^verbatim>\<open>{}\<close> is the list of its
  own properties in the order of \<^verbatim>\<open>Object.keys\<close>: first the keys that are array indices
  (canonical decimal numerals up to \<open>2\<^sup>3\<^sup>2 - 2\<close>) in ascending numeric order, then the
  other keys in the order of their creation.
\<close>

type_synonym Params = "(string \<times> string) list"

definition index_value :: "string \<Rightarrow> int" where
  "index_value k = foldl (\<lambda>n c. 10 * n + (of_char c - 48)) 0 k"

definition is_array_index :: "string \<Rightarrow> bool" where
  "is_array_index k =
     (k \<noteq> [] \<and> list_all is_digit k \<and> (k = ''0'' \<or> \<not> startsWith k ''0'')
      \<and> index_value k \<le> 4294967294)"

fun replace_prop :: "string \<Rightarrow> string \<Rightarrow> Params \<Rightarrow> Params" where
  "replace_prop k v [] = []"
| "replace_prop k v ((k', v') # kvs) =
     (if k = k' then (k, v) # kvs else (k', v') # replace_prop k v kvs)"

fun insert_index :: "string \<Rightarrow> string \<Rightarrow> Params \<Rightarrow> Params" where
  "insert_index k v [] = [(k, v)]"
| "insert_index k v ((k', v') # kvs) =
     (if is_array_index k' \<and> index_value k' < index_value k
      then (k', v') # insert_index k v kvs
      else (k, v) # (k', v') # kvs)"

text \<open>
  The assignment \<^verbatim>\<open>obj[k] = v\<close> of a string to a property of such an object. The name
  \<^verbatim>\<open>__proto__\<close> is not a property of the object but the accessor it inherits from
  \<^verbatim>\<open>Object.prototype\<close>, whose setter ignores a value that is neither an object nor
  \<^verbatim>\<open>null\<close>: the assignment creates nothing. Any other name is written in place when
  the object has it, and created otherwise.
\<close>

definition set_prop :: "string \<Rightarrow> string \<Rightarrow> Params \<Rightarrow> Params" where
  "set_prop k v ps =
     (if k = ''__proto__'' then ps
      else if map_of ps k \<noteq> None then replace_prop k v ps
      else if is_array_index k then insert_index k v ps
      else ps @ [(k, v)])"

text \<open>Errors a JavaScript expression of the embedded code can raise.\<close>

datatype js_error = TypeError | RangeError

text \<open>Array indexing, with \<^verbatim>\<open>undefined\<close> out of range.\<close>

definition nth_opt :: "'a list \<Rightarrow> nat \<Rightarrow> 'a option" where
  "nth_opt xs i = (if i < length xs then Some (xs ! i) else None)"

text \<open>\<^verbatim>\<open>findIndex\<close>: the index of the first element that satisfies the predicate.\<close>

fun findIndex :: "('a \<Rightarrow> bool) \<Rightarrow> 'a list \<Rightarrow> nat option" where
  "findIndex P [] = None"
| "findIndex P (x # xs) =
     (if P x then Some 0 else (case findIndex P xs of None \<Rightarrow> None | Some i \<Rightarrow> Some (Suc i)))"

text \<open>\<^verbatim>\<open>s.includes(c)\<close> for a one-character needle.\<close>

definition includes_char :: "string \<Rightarrow> char \<Rightarrow> bool" where
  "includes_char s c = (c \<in> set s)"

text \<open>\<^verbatim>\<open>s.slice(1)\<close>.\<close>

definition slice1 :: "string \<Rightarrow> string" where
  "slice1 s = drop 1 s"

fun extractParams_segments :: "string list \<Rightarrow> string list" where
  "extractParams_segments [] = []"
| "extractParams_segments (segment # segments) =
     (if startsWith segment '':'' then slice1 segment # extractParams_segments segments
      else if startsWith segment ''*'' then slice1 segment # extractParams_segments segments
      else extractParams_segments segments)"

definition extractParams :: "string \<Rightarrow> string list" where
  "extractParams routePath = extractParams_segments (split_on CHR ''/'' routePath)"

text \<open>
  The loop of \<^verbatim>\<open>matchDynamicRoute\<close> over a route without a catch-all. The two segment
  lists have the same length when it runs.
\<close>

fun match_segments :: "Params \<Rightarrow> (string \<times> string) list \<Rightarrow> Params option" where
  "match_segments ps [] = Some ps"
| "match_segments ps ((routeSegment, pathSegment) # rest) =
     (if startsWith routeSegment '':''
      then match_segments (set_prop (slice1 routeSegment) pathSegment ps) rest
      else if routeSegment \<noteq> pathSegment then None
      else match_segments ps rest)"

text \<open>
  The parameter name of a catch-all segment: the text after the \<^verbatim>\<open>*\<close>, without the
  \<^verbatim>\<open>?\<close> marker that the directory scan puts in front of an optional catch-all.
\<close>

definition catchAllParamName :: "string \<Rightarrow> string" where
  "catchAllParamName seg =
     (let paramName = slice1 seg
      in if startsWith paramName ''?'' then slice1 paramName else paramName)"

definition matchDynamicRoute :: "string \<Rightarrow> string \<Rightarrow> bool \<Rightarrow> js_error + Params option" where
  "matchDynamicRoute pathname routePath catchAllOpt =
     (let pathSegments = filter_Boolean (split_on CHR ''/'' pathname);
          routeSegments = filter_Boolean (split_on CHR ''/'' routePath)
      in if includes_char routePath CHR ''*''
         then (case findIndex (\<lambda>s. startsWith s ''*'') routeSegments of
                 None \<Rightarrow> Inl TypeError
               | Some catchAllIndex \<Rightarrow>
                   if \<not> list_all (\<lambda>i. nth_opt pathSegments i = nth_opt routeSegments i)
                            [0..<catchAllIndex]
                   then Inr None
                   else
                     (case nth_opt routeSegments catchAllIndex of
                        None \<Rightarrow> Inl TypeError
                      | Some seg \<Rightarrow>
                          let paramName = catchAllParamName seg
                          in if length pathSegments \<le> catchAllIndex \<and> catchAllOpt
                             then Inr (Some (set_prop paramName [] []))
                             else Inr (Some (set_prop paramName
                                       (join ''/'' (drop catchAllIndex pathSegments)) []))))
         else if length pathSegments \<noteq> length routeSegments then Inr None
         else Inr (match_segments [] (zip routeSegments pathSegments)))"

text \<open>
  One iteration of the loop of \<^verbatim>\<open>matchRoute\<close>: the test of a single route against
  the pathname. \<open>Inr None\<close> is "not compatible, go on with the next route".
\<close>

definition route_match :: "string \<Rightarrow> Route \<Rightarrow> js_error + Params option" where
  "route_match pathname route =
     (if truthy_flag (dynamic route)
      then matchDynamicRoute pathname (path route) (truthy_flag (catchAllOptional route))
      else if truthy_flag (exact route)
      then (if pathname = path route then Inr (Some []) else Inr None)
      else (if startsWith pathname (path route) then Inr (Some []) else Inr None))"

fun matchRoute :: "string \<Rightarrow> Route list \<Rightarrow> js_error + (Route \<times> Params) option" where
  "matchRoute pathname [] = Inr None"
| "matchRoute pathname (route # routes) =
     (case route_match pathname route of
        Inl e \<Rightarrow> Inl e
      | Inr (Some m) \<Rightarrow> Inr (Some (route, m))
      | Inr None \<Rightarrow> matchRoute pathname routes)"

section \<open>Discovery of API routes (scanApiDirectory)\<close>

text \<open>
  A directory as \<^verbatim>\<open>readdirSync\<close> and \<^verbatim>\<open>statSync\<close> show it: a list of entries in
  listing order, each a file or a directory with its own entries. \<^verbatim>\<open>path.join(dir, file)\<close>
  of a directory path and an entry name is the two joined by a slash.
\<close>

datatype fs_entry = File string | Dir string "fs_entry list"

definition path_join :: "string \<Rightarrow> string \<Rightarrow> string" where
  "path_join dir file = dir @ ''/'' @ file"

definition endsWith :: "string \<Rightarrow> string \<Rightarrow> bool" where
  "endsWith s suffix = startsWith (rev s) (rev suffix)"

text \<open>\<^verbatim>\<open>s.slice(a, -b)\<close>: from index \<open>a\<close> up to \<open>b\<close> characters before the end.\<close>

definition slice_between :: "string \<Rightarrow> nat \<Rightarrow> nat \<Rightarrow> string" where
  "slice_between s a b = take (length s - b - a) (drop a s)"

text \<open>
  \<^verbatim>\<open>file.replace(/\.(ts|js)$/, '')\<close>; the scan calls it on names that end in
  \<^verbatim>\<open>.ts\<close> or \<^verbatim>\<open>.js\<close> only.
\<close>

definition strip_ts_js :: "string \<Rightarrow> string" where
  "strip_ts_js file =
     (if endsWith file ''.ts'' \<or> endsWith file ''.js'' then take (length file - 3) file else file)"

definition api_dir_prefix :: "string \<Rightarrow> string \<Rightarrow> string" where
  "api_dir_prefix prefix file =
     (if startsWith file ''[[...'' \<and> endsWith file '']]''
      then prefix @ ''/*?'' @ slice_between file 5 2
      else if startsWith file ''[...'' \<and> endsWith file '']''
      then prefix @ ''/*'' @ slice_between file 4 1
      else if startsWith file ''['' \<and> endsWith file '']''
      then prefix @ ''/:'' @ slice_between file 1 1
      else prefix @ ''/'' @ file)"

text \<open>The route that a source file of the API tree is registered as.\<close>

definition api_file_route :: "string \<Rightarrow> string \<Rightarrow> string \<Rightarrow> Route" where
  "api_file_route fullPath prefix file =
     (let fileName = strip_ts_js file;
          (routePath, params0) =
            (if fileName = ''route'' then (if prefix \<noteq> [] then prefix else ''/'', [])
             else if startsWith fileName ''['' \<and> endsWith fileName '']''
                     \<and> \<not> startsWith fileName ''[...''
             then (prefix @ ''/:'' @ slice_between fileName 1 1, [slice_between fileName 1 1])
             else if startsWith fileName ''[...'' \<and> endsWith fileName '']''
             then (prefix @ ''/*'' @ slice_between fileName 4 1, [slice_between fileName 4 1])
             else if startsWith fileName ''[[...'' \<and> endsWith fileName '']]''
             then (prefix @ ''/*'' @ slice_between fileName 5 2, [slice_between fileName 5 2])
             else (prefix @ ''/'' @ fileName, []));
          isDynamic = (includes_char routePath CHR '':'' \<or> includes_char routePath CHR ''*'');
          params1 = (if params0 = [] \<and> isDynamic then extractParams routePath else params0)
      in \<lparr>path = routePath, component = fullPath, exact = None, dynamic = Some isDynamic,
          params = Some params1, catchAllOptional = None\<rparr>)"

text \<open>
  \<^verbatim>\<open>scanApiDirectory(dir, prefix, apiRoutes)\<close>: the routes it pushes, in order, for the
  entries of \<open>dir\<close>.
\<close>

fun scanApiDirectory :: "string \<Rightarrow> string \<Rightarrow> fs_entry list \<Rightarrow> Route list"
  and scanApiEntry :: "string \<Rightarrow> string \<Rightarrow> fs_entry \<Rightarrow> Route list" where
  "scanApiDirectory dir prefix [] = []"
| "scanApiDirectory dir prefix (entry # files) =
     scanApiEntry dir prefix entry @ scanApiDirectory dir prefix files"
| "scanApiEntry dir prefix (Dir file children) =
     scanApiDirectory (path_join dir file) (api_dir_prefix prefix file) children"
| "scanApiEntry dir prefix (File file) =
     (if (endsWith file ''.ts'' \<or> endsWith file ''.js'') \<and> \<not> endsWith file ''.d.ts''
      then [api_file_route (path_join dir file) prefix file]
      else [])"

section \<open>Locale detection and the route stage of the request handler (server/dev.ts)\<close>

text \<open>\<^verbatim>\<open>url.split('?')[0].split('#')[0] || '/'\<close>.\<close>

definition rawPath_of :: "string \<Rightarrow> string" where
  "rawPath_of url =
     (let r = split_first CHR ''#'' (split_first CHR ''?'' url) in if r = [] then ''/'' else r)"

text \<open>
  The path that routing uses: the raw path without its locale prefix when its first
  segment has the shape of a locale, the raw path itself otherwise.
\<close>

definition effectivePath_of :: "string \<Rightarrow> string" where
  "effectivePath_of rawPath =
     (case filter_Boolean (split_on CHR ''/'' rawPath) of
        [] \<Rightarrow> rawPath
      | firstSegment # _ \<Rightarrow>
          if localePattern firstSegment then stripLocaleFromPath rawPath else rawPath)"

text \<open>
  The last part of the request handler, reached when no earlier stage (generated
  assets, static files, middleware, server actions) has answered. The result names
  the handler that takes the request or the response that is written, together with
  the route tables that were searched, in order.
\<close>

datatype table = ApiTable | PageTable

datatype dispatch =
    HandleApiRoute Route Params
  | ApiNotFound404
  | HandlePageRoute Route Params
  | PageNotFound404
  | Unhandled js_error

fun find_route :: "string \<Rightarrow> Route list \<Rightarrow> Route option" where
  "find_route p [] = None"
| "find_route p (r # rs) = (if path r = p then Some r else find_route p rs)"

definition route_stage :: "string \<Rightarrow> Route list \<Rightarrow> Route list \<Rightarrow> table list \<times> dispatch" where
  "route_stage effectivePath apiRoutes routes =
     (case matchRoute effectivePath apiRoutes of
        Inl e \<Rightarrow> ([ApiTable], Unhandled e)
      | Inr (Some (route, ps)) \<Rightarrow> ([ApiTable], HandleApiRoute route ps)
      | Inr None \<Rightarrow>
          if startsWith effectivePath ''/api/'' then ([ApiTable], ApiNotFound404)
          else
            (case matchRoute effectivePath routes of
               Inl e \<Rightarrow> ([ApiTable, PageTable], Unhandled e)
             | Inr (Some (route, ps)) \<Rightarrow> ([ApiTable, PageTable], HandlePageRoute route ps)
             | Inr None \<Rightarrow>
                 (case find_route ''/404'' routes of
                    Some nf \<Rightarrow> ([ApiTable, PageTable], HandlePageRoute nf [])
                  | None \<Rightarrow>
                      (case find_route ''/not-found'' routes of
                         Some nf \<Rightarrow> ([ApiTable, PageTable], HandlePageRoute nf [])
                       | None \<Rightarrow> ([ApiTable, PageTable], PageNotFound404)))))"

text \<open>The status that the route stage writes itself, when it does not hand over.\<close>

fun dispatch_status :: "dispatch \<Rightarrow> nat option" where
  "dispatch_status ApiNotFound404 = Some 404"
| "dispatch_status PageNotFound404 = Some 404"
| "dispatch_status _ = None"

section \<open>JavaScript values\<close>

text \<open>
  Module exports, thrown values and response bodies. A function value carries what
  the server inspects: whether it is an \<^verbatim>\<open>AsyncFunction\<close> and its declared number of
  parameters. Numbers are integers (status codes). The properties of an object are
  listed in the order of \<^verbatim>\<open>Object.keys\<close>.
\<close>

datatype fn = Fn (fn_id: nat) (fn_async: bool) (fn_arity: nat)

datatype jsval =
    JUndefined
  | JNull
  | JBool bool
  | JNum int
  | JStr string
  | JFun fn
  | JObj "(string \<times> jsval) list"

fun truthy :: "jsval \<Rightarrow> bool" where
  "truthy JUndefined = False"
| "truthy JNull = False"
| "truthy (JBool b) = b"
| "truthy (JNum n) = (n \<noteq> 0)"
| "truthy (JStr s) = (s \<noteq> [])"
| "truthy (JFun f) = True"
| "truthy (JObj ps) = True"

fun nullish :: "jsval \<Rightarrow> bool" where
  "nullish JUndefined = True"
| "nullish JNull = True"
| "nullish _ = False"

text \<open>
  Reading a property. The embedded code reads properties of values it has tested to be
  truthy, and of the names it reads only objects can have one.
\<close>

fun get_prop :: "jsval \<Rightarrow> string \<Rightarrow> jsval" where
  "get_prop (JObj ps) k = (case map_of ps k of None \<Rightarrow> JUndefined | Some v \<Rightarrow> v)"
| "get_prop _ k = JUndefined"

text \<open>\<^verbatim>\<open>a && b\<close> and \<^verbatim>\<open>a ?? b\<close> on values.\<close>

definition js_and :: "jsval \<Rightarrow> jsval \<Rightarrow> jsval" where
  "js_and a b = (if truthy a then b else a)"

definition js_coalesce :: "jsval \<Rightarrow> jsval \<Rightarrow> jsval" where
  "js_coalesce a b = (if nullish a then b else a)"

fun is_function :: "jsval \<Rightarrow> bool" where
  "is_function (JFun f) = True"
| "is_function _ = False"

fun is_number :: "jsval \<Rightarrow> bool" where
  "is_number (JNum n) = True"
| "is_number _ = False"

section \<open>Compiled artifacts\<close>

text \<open>
  Paths are absolute, normalised POSIX paths. \<^verbatim>\<open>path.basename\<close> is the text after the
  last slash; \<^verbatim>\<open>path.relative(from, to)\<close> climbs out of what is left of the first path after the
  common leading segments and descends into what is left of the second.
\<close>

definition basename :: "string \<Rightarrow> string" where
  "basename p = rev (takeWhile (\<lambda>c. c \<noteq> CHR ''/'') (rev p))"

fun strip_common :: "string list \<Rightarrow> string list \<Rightarrow> string list \<times> string list" where
  "strip_common (x # xs) (y # ys) = (if x = y then strip_common xs ys else (x # xs, y # ys))"
| "strip_common xs ys = (xs, ys)"

definition path_relative :: "string \<Rightarrow> string \<Rightarrow> string" where
  "path_relative fromPath toPath =
     (let (up, down) = strip_common (filter_Boolean (split_on CHR ''/'' fromPath))
                                    (filter_Boolean (split_on CHR ''/'' toPath))
      in join ''/'' (map (\<lambda>_. ''..'') up @ down))"

text \<open>\<^verbatim>\<open>s.replace(/\.[^.]+$/, '')\<close>: drop the extension after the last dot, if it is not empty.\<close>

definition strip_ext :: "string \<Rightarrow> string" where
  "strip_ext s =
     (let ext = takeWhile (\<lambda>c. c \<noteq> CHR ''.'') (rev s)
      in if ext \<noteq> [] \<and> length ext < length s then take (length s - length ext - 1) s else s)"

text \<open>\<^verbatim>\<open>s.replace(/\\/g, '/')\<close> and \<^verbatim>\<open>s.replace(/[^a-zA-Z0-9_-]/g, '_')\<close>.\<close>

definition backslashes_to_slashes :: "string \<Rightarrow> string" where
  "backslashes_to_slashes s = map (\<lambda>c. if c = CHR 0x5C then CHR ''/'' else c) s"

definition safe_chars :: "string \<Rightarrow> string" where
  "safe_chars s =
     map (\<lambda>c. if is_alpha c \<or> is_digit c \<or> c = CHR ''_'' \<or> c = CHR ''-'' then c else CHR ''_'') s"

definition safeComponentKey :: "string \<Rightarrow> string \<Rightarrow> string" where
  "safeComponentKey root componentPath =
     safe_chars (strip_ext (backslashes_to_slashes (path_relative root componentPath)))"

definition compiledApiPath :: "string \<Rightarrow> string \<Rightarrow> string \<Rightarrow> string" where
  "compiledApiPath root tempDir componentPath =
     path_join tempDir (safeComponentKey root componentPath @ ''.api.server.js'')"

definition compiledServerPath :: "string \<Rightarrow> string \<Rightarrow> string" where
  "compiledServerPath tempDir componentPath = path_join tempDir (strip_ext (basename componentPath) @ ''.server.js'')"

section \<open>Collaborators of a request\<close>

text \<open>
  The options of one call of the compiler, \<^verbatim>\<open>bundler.bundleServer\<close>; \<open>sourcemap\<close> is
  \<open>None\<close> where the call leaves it out.
\<close>

datatype bundle_opts =
  BundleOpts (entryPoint: string) (outfile: string) (sourcemap: "bool option")

text \<open>
  What is handed to the rendering engine: \<^verbatim>\<open>React.createElement\<close> of a component
  (which does not call it), the node an async component resolved to, an element
  inside a layout, and the application inside the locale provider.
\<close>

datatype element =
    Created fn
  | Resolved jsval
  | InLayout fn element
  | WrappedApp string element

text \<open>
  The world a request runs in. Every collaborator answers as a function of what it is
  asked: the modification time of a file (\<open>None\<close>: no such file, \<^verbatim>\<open>existsSync\<close> is false
  and \<^verbatim>\<open>statSync\<close> throws), the compiler (\<open>None\<close>: the artifact was written, \<open>Some msg\<close>:
  it rejected with that message), \<^verbatim>\<open>require\<close> of an artifact (\<open>None\<close>: it throws), the
  check for a leading \<^verbatim>\<open>'use client'\<close> directive, the layout files above a directory,
  outermost first, the first eight hexadecimal digits of an MD5 digest, the call of an
  async component and the rendering engine (\<open>Inl\<close>: the value thrown).
\<close>

record 't world =
  mtime :: "string \<Rightarrow> 't option"
  bundleServer :: "bundle_opts \<Rightarrow> string option"
  require :: "string \<Rightarrow> jsval option"
  isClientOnlyPage :: "string \<Rightarrow> bool"
  findLayoutFiles :: "string \<Rightarrow> string list"
  md5_8 :: "string \<Rightarrow> string"
  callComponent :: "fn \<Rightarrow> jsval + jsval"
  renderToString :: "element \<Rightarrow> jsval + string"

text \<open>The calls a handler makes to its collaborators, in order.\<close>

datatype event =
    Bundle bundle_opts
  | WipeTemp
  | Require string
  | CallHandler fn
  | CallComponent fn
  | RenderToString element

fun is_Bundle :: "event \<Rightarrow> bool" where
  "is_Bundle (Bundle opts) = True"
| "is_Bundle _ = False"

fun is_RenderToString :: "event \<Rightarrow> bool" where
  "is_RenderToString (RenderToString el) = True"
| "is_RenderToString _ = False"

text \<open>\<^verbatim>\<open>/ENOSPC|not enough space|There is not enough space/i.test(msg)\<close>.\<close>

definition to_lower :: "char \<Rightarrow> char" where
  "to_lower c =
     (case map_of (zip ''ABCDEFGHIJKLMNOPQRSTUVWXYZ'' ''abcdefghijklmnopqrstuvwxyz'') c of
        None \<Rightarrow> c
      | Some l \<Rightarrow> l)"

definition to_upper :: "char \<Rightarrow> char" where
  "to_upper c =
     (case map_of (zip ''abcdefghijklmnopqrstuvwxyz'' ''ABCDEFGHIJKLMNOPQRSTUVWXYZ'') c of
        None \<Rightarrow> c
      | Some u \<Rightarrow> u)"

fun includes_str :: "string \<Rightarrow> string \<Rightarrow> bool" where
  "includes_str [] needle = (needle = [])"
| "includes_str (c # cs) needle = (startsWith (c # cs) needle \<or> includes_str cs needle)"

definition is_enospc :: "string \<Rightarrow> bool" where
  "is_enospc msg =
     (let m = map to_lower msg
      in includes_str m ''enospc'' \<or> includes_str m ''not enough space''
         \<or> includes_str m ''there is not enough space'')"

text \<open>
  The helper that \<^verbatim>\<open>handleApiRoute\<close> (safeBundleApi) and \<^verbatim>\<open>handlePageRoute\<close>
  (safeBundleServer) each define: compile with source maps; on a disk-space failure
  wipe the temporary directory and compile once more without. The result is the calls
  made and the message of the error that escapes, if one does.
\<close>

definition safeBundle :: "('t, 'x) world_scheme \<Rightarrow> string \<Rightarrow> string \<Rightarrow> event list \<times> string option" where
  "safeBundle w entry out =
     (let first = BundleOpts entry out (Some True)
      in case bundleServer w first of
           None \<Rightarrow> ([Bundle first], None)
         | Some msg \<Rightarrow>
             if is_enospc msg
             then (let second = BundleOpts entry out (Some False)
                   in ([Bundle first, WipeTemp, Bundle second], bundleServer w second))
             else ([Bundle first], Some msg))"

section \<open>handleApiRoute\<close>

text \<open>
  \<^verbatim>\<open>needsBundle\<close>: true unless the artifact exists, both files can be stat'ed and the
  artifact is not older than the source.
\<close>

definition needsBundle :: "('t::linorder, 'x) world_scheme \<Rightarrow> string \<Rightarrow> string \<Rightarrow> bool" where
  "needsBundle w componentPath compiledPath =
     (case mtime w compiledPath of
        None \<Rightarrow> True
      | Some outMtime \<Rightarrow>
          (case mtime w componentPath of
             None \<Rightarrow> True
           | Some srcMtime \<Rightarrow> \<not> (outMtime \<ge> srcMtime)))"

definition methods :: "string list" where
  "methods = [''GET'', ''POST'', ''PUT'', ''PATCH'', ''DELETE'', ''OPTIONS'']"

fun method_exports :: "jsval \<Rightarrow> string list \<Rightarrow> (string \<times> fn) list" where
  "method_exports md [] = []"
| "method_exports md (m # ms) =
     (case get_prop md m of
        JFun f \<Rightarrow> (m, f) # method_exports md ms
      | _ \<Rightarrow> method_exports md ms)"

text \<open>\<^verbatim>\<open>resolveHandler\<close>: the handler object, or \<open>None\<close> for \<^verbatim>\<open>null\<close>.\<close>

definition resolveHandler :: "jsval \<Rightarrow> (string \<times> fn) list option" where
  "resolveHandler md =
     (if \<not> truthy md then None
      else case md of
             JFun f \<Rightarrow> Some [(''default'', f)]
           | JObj ps \<Rightarrow>
               (case get_prop md ''default'' of
                  JFun f \<Rightarrow> Some [(''default'', f)]
                | _ \<Rightarrow> (let out = method_exports md methods
                        in if out \<noteq> [] then Some out else None))
           | _ \<Rightarrow> None)"

text \<open>\<^verbatim>\<open>(req.method || 'GET').toUpperCase()\<close>; method names are ASCII.\<close>

definition request_method :: "string option \<Rightarrow> string" where
  "request_method m = map to_upper (case m of None \<Rightarrow> ''GET'' | Some s \<Rightarrow> if s = [] then ''GET'' else s)"

text \<open>
  How \<^verbatim>\<open>handleApiRoute\<close> ends: with the 500 response of a failed compilation or load,
  with a call of the export it chose (named by its key in the handler object), or with
  the 405 response. What the chosen function answers is its own business.
\<close>

datatype api_outcome =
    ApiBundlingFailed500
  | ApiCalls string fn
  | ApiMethodNotAllowed405

definition choose_handler :: "(string \<times> fn) list option \<Rightarrow> string \<Rightarrow> api_outcome" where
  "choose_handler handlerObj method =
     (case handlerObj of
        None \<Rightarrow> ApiMethodNotAllowed405
      | Some h \<Rightarrow>
          (case map_of h method of
             Some f \<Rightarrow> ApiCalls method f
           | None \<Rightarrow>
               (case map_of h ''default'' of
                  Some f \<Rightarrow> ApiCalls ''default'' f
                | None \<Rightarrow> ApiMethodNotAllowed405)))"

definition handleApiRoute ::
  "('t::linorder, 'x) world_scheme \<Rightarrow> string \<Rightarrow> string \<Rightarrow> Route \<Rightarrow> string option
     \<Rightarrow> event list \<times> api_outcome" where
  "handleApiRoute w root tempDir route reqMethod =
     (let compiled = compiledApiPath root tempDir (component route);
          (bundling, failure) =
             (if needsBundle w (component route) compiled
              then safeBundle w (component route) compiled else ([], None))
      in case failure of
           Some msg \<Rightarrow> (bundling, ApiBundlingFailed500)
         | None \<Rightarrow>
             (case require w compiled of
                None \<Rightarrow> (bundling @ [Require compiled], ApiBundlingFailed500)
              | Some ApiModule \<Rightarrow>
                  (case choose_handler (resolveHandler ApiModule) (request_method reqMethod) of
                     ApiCalls k f \<Rightarrow>
                       (bundling @ [Require compiled, CallHandler f], ApiCalls k f)
                   | outcome \<Rightarrow> (bundling @ [Require compiled], outcome))))"

section \<open>Responses (core/response.ts, server/response.ts)\<close>

text \<open>
  What is written to the socket: the status and headers of \<^verbatim>\<open>writeHead\<close> and the argument
  of \<^verbatim>\<open>end\<close>. A page is sent as the document that the handler assembles around the
  rendered markup; the diagnostic pages are named, not spelled out. A request is
  answered with what was sent, or with nothing when the call that should have written
  the response raised.
\<close>

datatype res_body =
    NoBody
  | Text string
  | Serialized jsval
  | Document string
  | ErrorOverlay
  | ComponentExportError
  | ClientShell

record sent_response =
  res_status :: int
  res_headers :: "(string \<times> string) list"
  res_body :: res_body

datatype response = Sent sent_response | NothingSent js_error

text \<open>
  \<^verbatim>\<open>res.writeHead(status, headers)\<close> followed by \<^verbatim>\<open>res.end(body)\<close>, as Node's \<^verbatim>\<open>http\<close>
  module does them: the status is truncated to a 32-bit integer and must lie between
  100 and 999, else a \<^verbatim>\<open>RangeError\<close> is thrown; every header name must be a token and
  every header value free of control characters other than the tab, else a
  \<^verbatim>\<open>TypeError\<close> is thrown. Nothing is written when it throws.
\<close>

definition to_int32 :: "int \<Rightarrow> int" where
  "to_int32 n = (n + 2147483648) mod 4294967296 - 2147483648"

definition token_char :: "char \<Rightarrow> bool" where
  "token_char c = (is_alpha c \<or> is_digit c \<or> c \<in> set ''^_`-!#$%&*+.|~'' \<or> c = CHR 0x27)"

definition header_name_ok :: "string \<Rightarrow> bool" where
  "header_name_ok k = (k \<noteq> [] \<and> list_all token_char k)"

definition header_value_ok :: "string \<Rightarrow> bool" where
  "header_value_ok v =
     list_all (\<lambda>c. let n = (of_char c :: nat) in n = 9 \<or> (32 \<le> n \<and> n \<le> 126) \<or> 128 \<le> n) v"

definition writeHead_end :: "int \<Rightarrow> (string \<times> string) list \<Rightarrow> res_body \<Rightarrow> response" where
  "writeHead_end st hs b =
     (let statusCode = to_int32 st
      in if statusCode < 100 \<or> statusCode > 999 then NothingSent RangeError
         else if \<not> list_all (\<lambda>(k, v). header_name_ok k \<and> header_value_ok v) hs
         then NothingSent TypeError
         else Sent \<lparr>res_status = statusCode, res_headers = hs, res_body = b\<rparr>)"

record SatsetResponse =
  body :: jsval
  status :: int
  headers :: "(string \<times> string) list"

text \<open>\<^verbatim>\<open>SatsetResponse.redirect(url, status)\<close>.\<close>

definition SatsetResponse_redirect :: "string \<Rightarrow> int \<Rightarrow> SatsetResponse" where
  "SatsetResponse_redirect url st = \<lparr>body = JNull, status = st, headers = [(''Location'', url)]\<rparr>"

definition header :: "(string \<times> string) list \<Rightarrow> string \<Rightarrow> string option" where
  "header hs k = map_of hs k"

definition header_truthy :: "(string \<times> string) list \<Rightarrow> string \<Rightarrow> bool" where
  "header_truthy hs k = (case header hs k of None \<Rightarrow> False | Some v \<Rightarrow> v \<noteq> [])"

text \<open>
  \<^verbatim>\<open>sendSatsetResponse\<close>, for the bodies a value of the embedding can be: none, a
  string, or something that is serialised. It is an async function that its callers do
  not await: when \<^verbatim>\<open>writeHead\<close> throws inside it, no handler sees the error and nothing
  is sent.
\<close>

definition sendSatsetResponse :: "SatsetResponse \<Rightarrow> response" where
  "sendSatsetResponse satRes =
     (let hs = headers satRes;
          st = (if status satRes = 0 then 200 else status satRes)
      in if header_truthy hs ''Location''
         then writeHead_end st hs NoBody
         else if nullish (body satRes)
         then writeHead_end st hs NoBody
         else case body satRes of
                JStr s \<Rightarrow>
                  writeHead_end st
                    (if header_truthy hs ''Content-Type'' then hs
                     else set_prop ''Content-Type'' ''text/plain; charset=utf-8'' hs)
                    (Text s)
              | v \<Rightarrow>
                  writeHead_end st
                    (if header_truthy hs ''Content-Type'' then hs
                     else set_prop ''Content-Type'' ''application/json'' hs)
                    (Serialized v))"

section \<open>Control-flow signals (the exported notFound and redirect)\<close>

text \<open>The values that \<^verbatim>\<open>notFound()\<close> and \<^verbatim>\<open>redirect(url, status)\<close> throw.\<close>

definition notFound :: jsval where
  "notFound = JObj [(''message'', JStr ''Not Found''), (''__SATSET_NOT_FOUND'', JBool True)]"

definition redirect :: "string \<Rightarrow> int \<Rightarrow> jsval" where
  "redirect url st =
     JObj [(''message'', JStr ''Redirect''),
           (''__SATSET_REDIRECT'', JObj [(''url'', JStr url), (''status'', JNum st)])]"

section \<open>handlePageRoute\<close>

definition dirname :: "string \<Rightarrow> string" where
  "dirname p = rev (drop 1 (dropWhile (\<lambda>c. c \<noteq> CHR ''/'') (rev p)))"

fun first_function :: "jsval \<Rightarrow> string list \<Rightarrow> jsval" where
  "first_function md [] = JNull"
| "first_function md (k # ks) =
     (if is_function (get_prop md k) then get_prop md k else first_function md ks)"

fun object_keys :: "jsval \<Rightarrow> string list" where
  "object_keys (JObj ps) = map fst ps"
| "object_keys _ = []"

fun is_object :: "jsval \<Rightarrow> bool" where
  "is_object (JObj ps) = True"
| "is_object JNull = True"
| "is_object _ = False"

definition resolveExportedComponent :: "jsval \<Rightarrow> jsval" where
  "resolveExportedComponent md =
     (if \<not> truthy md then JNull
      else if is_function md then md
      else if is_object md
      then (if is_function (get_prop md ''default'') then get_prop md ''default''
            else if truthy (get_prop md ''default'') \<and> is_object (get_prop md ''default'')
                    \<and> is_function (get_prop (get_prop md ''default'') ''default'')
            then get_prop (get_prop md ''default'') ''default''
            else first_function md (object_keys md))
      else JNull)"

text \<open>The component of a layout module; \<open>JNull\<close> when it has none.\<close>

definition layoutComponent :: "jsval \<Rightarrow> jsval" where
  "layoutComponent md =
     (if is_function md then md
      else if truthy md \<and> is_object md
      then (if is_function (get_prop md ''default'') then get_prop md ''default''
            else first_function md (object_keys md))
      else JNull)"

text \<open>The component of a not-found or error page module.\<close>

definition defaultComponent :: "jsval \<Rightarrow> jsval" where
  "defaultComponent md =
     (if is_function md then md
      else if truthy md \<and> is_function (get_prop md ''default'') then get_prop md ''default''
      else JNull)"

definition layoutCompiledPath :: "('t, 'x) world_scheme \<Rightarrow> string \<Rightarrow> string \<Rightarrow> string" where
  "layoutCompiledPath w tempDir layoutFile =
     path_join tempDir
       (strip_ext (basename layoutFile) @ ''.'' @ md5_8 w layoutFile @ ''.layout.server.js'')"

text \<open>
  The loop over the layout files. An error of the compiler or of \<^verbatim>\<open>require\<close> ends the
  loop; the layouts loaded before it stay.
\<close>

fun load_layouts :: "('t, 'x) world_scheme \<Rightarrow> string \<Rightarrow> string list \<Rightarrow> event list \<times> fn list" where
  "load_layouts w tempDir [] = ([], [])"
| "load_layouts w tempDir (layoutFile # layoutFiles) =
     (let layoutCompiled = layoutCompiledPath w tempDir layoutFile;
          opts = BundleOpts layoutFile layoutCompiled None
      in case bundleServer w opts of
           Some msg \<Rightarrow> ([Bundle opts], [])
         | None \<Rightarrow>
             (case require w layoutCompiled of
                None \<Rightarrow> ([Bundle opts, Require layoutCompiled], [])
              | Some LayoutModule \<Rightarrow>
                  (let (evs, layouts) = load_layouts w tempDir layoutFiles
                   in (Bundle opts # Require layoutCompiled # evs,
                       (case layoutComponent LayoutModule of
                          JFun f \<Rightarrow> f # layouts
                        | _ \<Rightarrow> layouts)))))"

text \<open>The \<^verbatim>\<open>Error\<close> that \<^verbatim>\<open>renderComponentToHtml\<close> throws for a value that is no function.\<close>

definition invalid_component :: jsval where
  "invalid_component = JObj [(''message'', JStr ''Invalid component to render'')]"

definition renderComponentToHtml ::
  "('t, 'x) world_scheme \<Rightarrow> jsval \<Rightarrow> event list \<times> (jsval + string)" where
  "renderComponentToHtml w Comp =
     (case Comp of
        JFun f \<Rightarrow>
          if fn_async f
          then (case callComponent w f of
                  Inl e \<Rightarrow> ([CallComponent f], Inl e)
                | Inr node \<Rightarrow>
                    ([CallComponent f, RenderToString (Resolved node)],
                     renderToString w (Resolved node)))
          else ([RenderToString (Created f)], renderToString w (Created f))
      | _ \<Rightarrow> ([], Inl invalid_component))"

text \<open>
  The body of the \<^verbatim>\<open>try\<close> block that renders the page: load the layouts, obtain the
  page node (an async page component is called here, a synchronous one only by the
  rendering engine), wrap it in the layouts from the inside out and in the locale
  provider, and render.
\<close>

definition render_page ::
  "('t, 'x) world_scheme \<Rightarrow> string \<Rightarrow> Route \<Rightarrow> string \<Rightarrow> fn \<Rightarrow> event list \<times> (jsval + string)" where
  "render_page w tempDir route locale PageComponent =
     (let (loading, layouts) = load_layouts w tempDir (findLayoutFiles w (dirname (component route)))
      in if fn_async PageComponent
         then (case callComponent w PageComponent of
                 Inl e \<Rightarrow> (loading @ [CallComponent PageComponent], Inl e)
               | Inr node \<Rightarrow>
                   (let app = WrappedApp locale (foldr InLayout layouts (Resolved node))
                    in (loading @ [CallComponent PageComponent, RenderToString app],
                        renderToString w app)))
         else (let app = WrappedApp locale (foldr InLayout layouts (Created PageComponent))
               in (loading @ [RenderToString app], renderToString w app)))"

text \<open>The redirect branch of the \<^verbatim>\<open>catch\<close> block.\<close>

definition redirect_response :: "jsval \<Rightarrow> response" where
  "redirect_response err =
     (let info = get_prop err ''__SATSET_REDIRECT'';
          url = (case get_prop info ''url'' of JStr s \<Rightarrow> if s \<noteq> [] then s else ''/'' | _ \<Rightarrow> ''/'');
          st = (case get_prop info ''status'' of JNum n \<Rightarrow> n | _ \<Rightarrow> 307)
      in sendSatsetResponse (SatsetResponse_redirect url st))"

text \<open>
  Rendering a registered page in place of the failed one: compile it to
  \<open>tempDir/<base><suffix>\<close>, load it, take its component and render. \<open>None\<close> is any
  failure on the way, including a module without a component when \<open>strict\<close> is set
  (the error branch rethrows there, the not-found branch uses the literal page).
\<close>

definition render_substitute ::
  "('t, 'x) world_scheme \<Rightarrow> string \<Rightarrow> string \<Rightarrow> Route \<Rightarrow> event list \<times> string option" where
  "render_substitute w tempDir suffix r =
     (let compiled = path_join tempDir (strip_ext (basename (component r)) @ suffix);
          opts = BundleOpts (component r) compiled None
      in case bundleServer w opts of
           Some msg \<Rightarrow> ([Bundle opts], None)
         | None \<Rightarrow>
             (case require w compiled of
                None \<Rightarrow> ([Bundle opts, Require compiled], None)
              | Some md \<Rightarrow>
                  (if is_function (defaultComponent md)
                   then (let (evs, r) = renderComponentToHtml w (defaultComponent md)
                         in (Bundle opts # Require compiled # evs,
                             (case r of Inl e \<Rightarrow> None | Inr html \<Rightarrow> Some html)))
                   else ([Bundle opts, Require compiled], None))))"

definition literal_404 :: string where
  "literal_404 = ''<h1>404 - Page Not Found</h1>''"

text \<open>The not-found branch: the markup to send with status 404.\<close>

definition not_found_markup ::
  "('t, 'x) world_scheme \<Rightarrow> string \<Rightarrow> Route list \<Rightarrow> event list \<times> string" where
  "not_found_markup w tempDir allRoutes =
     (let nf = (case find_route ''/404'' allRoutes of
                  Some r \<Rightarrow> Some r
                | None \<Rightarrow> find_route ''/not-found'' allRoutes)
      in case nf of
           None \<Rightarrow> ([], literal_404)
         | Some r \<Rightarrow>
             if component r = [] then ([], literal_404)
             else (let (evs, html) = render_substitute w tempDir ''.notfound.server.js'' r
                   in (evs, (case html of None \<Rightarrow> literal_404 | Some h \<Rightarrow> h))))"

text \<open>The generic branch: status classification and the search for an error page.\<close>

definition maybeStatus :: "jsval \<Rightarrow> jsval" where
  "maybeStatus err =
     js_coalesce
       (js_coalesce (js_and err (get_prop err ''statusCode'')) (js_and err (get_prop err ''status'')))
       (if truthy (js_and err (JBool (is_number (get_prop err ''code''))))
        then get_prop err ''code'' else JUndefined)"

definition error_status :: "jsval \<Rightarrow> int" where
  "error_status err =
     (case maybeStatus err of
        JNum n \<Rightarrow> if n \<ge> 400 \<and> n \<le> 599 then n else 500
      | _ \<Rightarrow> 500)"

definition digit_char :: "nat \<Rightarrow> char" where
  "digit_char d = ''0123456789'' ! (d mod 10)"

fun show_nat :: "nat \<Rightarrow> string" where
  "show_nat n = (if n < 10 then [digit_char n] else show_nat (n div 10) @ [digit_char (n mod 10)])"

definition show_int :: "int \<Rightarrow> string" where
  "show_int i = (if i < 0 then CHR ''-'' # show_nat (nat (- i)) else show_nat (nat i))"

definition candidatePaths :: "int \<Rightarrow> string list" where
  "candidatePaths statusCode =
     [''/'' @ show_int statusCode]
     @ (if statusCode = 404 then [''/404'', ''/not-found''] else [])
     @ (if statusCode = 500 then [''/500''] else [])
     @ [''/error'']"

fun find_errorRoute :: "string list \<Rightarrow> Route list \<Rightarrow> Route option" where
  "find_errorRoute [] allRoutes = None"
| "find_errorRoute (p # ps) allRoutes =
     (case find_route p allRoutes of
        Some found \<Rightarrow> Some found
      | None \<Rightarrow> find_errorRoute ps allRoutes)"

definition errorRoute_of :: "jsval \<Rightarrow> Route list \<Rightarrow> Route option" where
  "errorRoute_of err allRoutes = find_errorRoute (candidatePaths (error_status err)) allRoutes"

definition error_markup ::
  "('t, 'x) world_scheme \<Rightarrow> string \<Rightarrow> Route list \<Rightarrow> jsval \<Rightarrow> event list \<times> string option" where
  "error_markup w tempDir allRoutes err =
     (case errorRoute_of err allRoutes of
        None \<Rightarrow> ([], None)
      | Some r \<Rightarrow>
          if component r = [] then ([], None)
          else render_substitute w tempDir ''.error.server.js'' r)"

text \<open>
  \<^verbatim>\<open>res.writeHead(status, { 'Content-Type': 'text/html' })\<close> and \<^verbatim>\<open>res.end(html)\<close>. The
  handler calls it with 200, 404, 500 or a classified error status, all of which Node
  accepts.
\<close>

definition html_response :: "int \<Rightarrow> res_body \<Rightarrow> response" where
  "html_response st b =
     Sent \<lparr>res_status = st, res_headers = [(''Content-Type'', ''text/html'')], res_body = b\<rparr>"

text \<open>The \<^verbatim>\<open>catch\<close> block around the rendering of the page.\<close>

definition render_failed ::
  "('t, 'x) world_scheme \<Rightarrow> string \<Rightarrow> Route list \<Rightarrow> jsval \<Rightarrow> event list \<times> response" where
  "render_failed w tempDir allRoutes err =
     (if truthy (js_and err (get_prop err ''__SATSET_REDIRECT''))
      then ([], redirect_response err)
      else if truthy (js_and err (get_prop err ''__SATSET_NOT_FOUND''))
      then (let (evs, html) = not_found_markup w tempDir allRoutes
            in (evs, html_response 404 (Document html)))
      else (let (evs, html) = error_markup w tempDir allRoutes err
            in case html of
                 Some h \<Rightarrow> (evs, html_response (error_status err) (Document h))
               | None \<Rightarrow> (evs, html_response 500 ErrorOverlay)))"

text \<open>
  \<^verbatim>\<open>handlePageRoute\<close>. A page with the \<^verbatim>\<open>'use client'\<close> directive is sent as a shell
  whose metadata come from a compilation of their own; any other page is compiled,
  loaded and rendered on the server.
\<close>

definition handlePageRoute ::
  "('t, 'x) world_scheme \<Rightarrow> string \<Rightarrow> Route \<Rightarrow> Route list \<Rightarrow> string \<Rightarrow> event list \<times> response" where
  "handlePageRoute w tempDir route allRoutes locale =
     (if isClientOnlyPage w (component route)
      then (let compiledMeta = path_join tempDir (strip_ext (basename (component route)) @ ''.meta.server.js'');
                opts = BundleOpts (component route) compiledMeta (Some False)
            in ((case bundleServer w opts of
                   None \<Rightarrow> [Bundle opts, Require compiledMeta]
                 | Some msg \<Rightarrow> [Bundle opts]),
                html_response 200 ClientShell))
      else
        (let compiled = compiledServerPath tempDir (component route);
             (bundling, failure) = safeBundle w (component route) compiled
         in case failure of
              Some msg \<Rightarrow> (bundling, html_response 500 ErrorOverlay)
            | None \<Rightarrow>
                (case require w compiled of
                   None \<Rightarrow> (bundling @ [Require compiled], html_response 500 ErrorOverlay)
                 | Some PageModule \<Rightarrow>
                     (case resolveExportedComponent PageModule of
                        JFun PageComponent \<Rightarrow>
                          (let (rendering, result) = render_page w tempDir route locale PageComponent
                           in case result of
                                Inr pageHTML \<Rightarrow>
                                  (bundling @ [Require compiled] @ rendering,
                                   html_response 200 (Document pageHTML))
                              | Inl err \<Rightarrow>
                                  (let (recovering, res) = render_failed w tempDir allRoutes err
                                   in (bundling @ [Require compiled] @ rendering @ recovering, res)))
                      | _ \<Rightarrow>
                          (bundling @ [Require compiled],
                           html_response 500 ComponentExportError)))))"

section \<open>Example data\<close>

text \<open>\<^verbatim>\<open>p.split('/').filter(Boolean)\<close>, the segments of a path or of a route pattern.\<close>

definition segments_of :: "string \<Rightarrow> string list" where
  "segments_of p = filter_Boolean (split_on CHR ''/'' p)"



text \<open>The static API route of \<^verbatim>\<open>src/api/users/route.ts\<close>, as the scan registers it.\<close>

definition api_users_route :: Route where
  "api_users_route =
     \<lparr>path = ''/api/users'', component = ''/proj/src/api/users/route.ts'',
      exact = None, dynamic = Some False, params = Some [], catchAllOptional = None\<rparr>"

text \<open>The page route of \<^verbatim>\<open>src/app/[[...path]]/page.tsx\<close>, an optional catch-all at the root.\<close>

definition root_catch_all_route :: Route where
  "root_catch_all_route =
     \<lparr>path = ''/*path'', component = ''/proj/src/app/[[...path]]/page.tsx'',
      exact = Some False, dynamic = Some True, params = Some [''path''],
      catchAllOptional = Some True\<rparr>"

text \<open>
  A project with two pages in different directories, one API handler that exports both
  \<^verbatim>\<open>GET\<close> and a default function, and artifacts in the temporary directory that are newer
  than their sources. The compiler succeeds. The page component, a parameter, throws
  the redirect signal \<^verbatim>\<open>redirect('/login', 307)\<close> when it is run: from its direct call if
  it is async, from inside the rendering engine if it is not.
\<close>

definition page_a_route :: Route where
  "page_a_route =
     \<lparr>path = ''/a'', component = ''/proj/src/app/a/page.tsx'',
      exact = Some True, dynamic = Some False, params = Some [],
      catchAllOptional = Some False\<rparr>"

definition page_b_route :: Route where
  "page_b_route =
     \<lparr>path = ''/b'', component = ''/proj/src/app/b/page.tsx'',
      exact = Some True, dynamic = Some False, params = Some [],
      catchAllOptional = Some False\<rparr>"

definition get_users :: fn where
  "get_users = Fn 1 True 1"

definition default_handler :: fn where
  "default_handler = Fn 2 False 2"

definition users_module :: jsval where
  "users_module = JObj [(''GET'', JFun get_users), (''default'', JFun default_handler)]"

definition demo_world :: "fn \<Rightarrow> nat world" where
  "demo_world pageComponent =
     \<lparr>mtime = (\<lambda>p. if p = ''/proj/src/api/users/route.ts'' \<or> p = ''/proj/src/app/a/page.tsx''
                       \<or> p = ''/proj/src/app/b/page.tsx'' then Some 10
                    else if p = ''/proj/.satset/temp/src_api_users_route.api.server.js''
                       \<or> p = ''/proj/.satset/temp/page.server.js'' then Some 20
                    else None),
      bundleServer = (\<lambda>opts. None),
      require = (\<lambda>p. if p = ''/proj/.satset/temp/src_api_users_route.api.server.js''
                      then Some users_module
                      else if p = ''/proj/.satset/temp/page.server.js''
                      then Some (JObj [(''default'', JFun pageComponent)])
                      else None),
      isClientOnlyPage = (\<lambda>p. False),
      findLayoutFiles = (\<lambda>d. []),
      md5_8 = (\<lambda>p. ''00000000''),
      callComponent = (\<lambda>f. Inl (redirect ''/login'' 307)),
      renderToString = (\<lambda>el. Inl (redirect ''/login'' 307))\<rparr>"

definition sync_page :: fn where
  "sync_page = Fn 3 False 1"

definition async_page :: fn where
  "async_page = Fn 4 True 1"




section \<open>Properties of the string primitives\<close>

lemma split_on_nonempty: "split_on c s \<noteq> []"
  by (induction s) (auto split: list.splits)

lemma split_on_free: "c \<notin> set s \<Longrightarrow> split_on c s = [s]"
  by (induction s) auto

lemma split_on_append: "c \<notin> set x \<Longrightarrow> split_on c (x @ c # r) = x # split_on c r"
  by (induction x) auto

lemma split_on_pieces: "seg \<in> set (split_on c s) \<Longrightarrow> c \<notin> set seg \<and> set seg \<subseteq> set s"
proof (induction s arbitrary: seg)
  case Nil then show ?case by simp
next
  case (Cons x xs)
  show ?case
  proof (cases "x = c")
    case True
    with Cons show ?thesis by auto
  next
    case False
    obtain y ys where sp: "split_on c xs = y # ys"
      using split_on_nonempty[of c xs] by (cases "split_on c xs") auto
    with False Cons.prems have "seg = x # y \<or> seg \<in> set ys" by auto
    then show ?thesis
    proof
      assume "seg = x # y"
      moreover have "c \<notin> set y \<and> set y \<subseteq> set xs" using Cons.IH[of y] sp by simp
      ultimately show ?thesis using False by auto
    next
      assume "seg \<in> set ys"
      then have "c \<notin> set seg \<and> set seg \<subseteq> set xs" using Cons.IH[of seg] sp by simp
      then show ?thesis by auto
    qed
  qed
qed

lemma split_first_free: "c \<notin> set s \<Longrightarrow> split_first c s = s"
  by (simp add: split_first_def split_on_free)

lemma split_first_pieces: "c \<notin> set (split_first c s) \<and> set (split_first c s) \<subseteq> set s"
proof -
  obtain y ys where sp: "split_on c s = y # ys"
    using split_on_nonempty[of c s] by (cases "split_on c s") auto
  then have "y \<in> set (split_on c s)" by simp
  from split_on_pieces[OF this] sp show ?thesis by (simp add: split_first_def)
qed

lemma segments_join:
  "\<forall>x \<in> set xs. x \<noteq> [] \<and> CHR ''/'' \<notin> set x \<Longrightarrow>
     filter_Boolean (split_on CHR ''/'' (join ''/'' xs)) = xs"
proof (induction xs)
  case Nil then show ?case by (simp add: filter_Boolean_def)
next
  case (Cons x xs)
  show ?case
  proof (cases xs)
    case Nil
    with Cons.prems show ?thesis by (simp add: filter_Boolean_def split_on_free)
  next
    case (Cons y ys)
    with Cons.prems Cons.IH show ?thesis by (simp add: filter_Boolean_def split_on_append)
  qed
qed

lemma set_join: "set (join sep xs) \<subseteq> set sep \<union> (\<Union>x \<in> set xs. set x)"
  by (induction sep xs rule: join.induct) auto



lemma startsWith_slash: "startsWith q ''/'' = (\<exists>r. q = CHR ''/'' # r)"
  by (cases q) auto

lemma strip_fixed:
  assumes clean: "CHR ''?'' \<notin> set q" "CHR ''#'' \<notin> set q"
    and slash: "startsWith q ''/''"
    and noloc: "\<not> leading_locale q"
    and root: "filter_Boolean (split_on CHR ''/'' q) = [] \<Longrightarrow> q = ''/''"
  shows "stripLocaleFromPath q = q"
proof -
  from slash have ne: "q \<noteq> []" by (cases q) auto
  have raw: "split_first CHR ''#'' (split_first CHR ''?'' q) = q"
    using clean by (simp add: split_first_free)
  show ?thesis
  proof (cases "filter_Boolean (split_on CHR ''/'' q)")
    case Nil
    with root ne raw show ?thesis by (simp add: stripLocaleFromPath_def)
  next
    case (Cons first rest)
    with noloc have "\<not> localePattern first" by (simp add: leading_locale_def)
    with Cons ne raw slash show ?thesis by (simp add: stripLocaleFromPath_def)
  qed
qed

lemma raw_clean:
  "CHR ''?'' \<notin> set (split_first CHR ''#'' (split_first CHR ''?'' p)) \<and>
   CHR ''#'' \<notin> set (split_first CHR ''#'' (split_first CHR ''?'' p))"
  using split_first_pieces[of "CHR ''#''" "split_first CHR ''?'' p"]
        split_first_pieces[of "CHR ''?''" p] by auto

lemma segments_clean:
  assumes "seg \<in> set (filter_Boolean (split_on CHR ''/'' raw))"
  shows "seg \<noteq> [] \<and> CHR ''/'' \<notin> set seg \<and> set seg \<subseteq> set raw"
  using assms split_on_pieces[of seg "CHR ''/''" raw] by (auto simp: filter_Boolean_def)

section \<open>Locale stripping\<close>

text \<open>
  Claim C1 says that \<^verbatim>\<open>stripLocaleFromPath\<close> is idempotent on every path. The function
  removes one leading segment of locale shape; when the next segment has that shape
  too, a second call removes it as well: \<^verbatim>\<open>/en/my/account\<close> becomes \<^verbatim>\<open>/my/account\<close> and
  then \<^verbatim>\<open>/account\<close>.
\<close>

theorem strip_twice_counterexample:
  "stripLocaleFromPath (stripLocaleFromPath ''/en/my/account'') \<noteq> stripLocaleFromPath ''/en/my/account''"
  by (simp add: stripLocaleFromPath_def split_first_def filter_Boolean_def is_alpha_def)

text \<open>
  Claim C1, amended: stripping is idempotent on every path whose stripped form does not
  begin with a segment of locale shape (two letters, or two letters, a dash and two
  letters).
\<close>

theorem strip_idempotent_without_second_locale:
  assumes noloc: "\<not> leading_locale (stripLocaleFromPath p)"
  shows "stripLocaleFromPath (stripLocaleFromPath p) = stripLocaleFromPath p"
proof (cases "p = []")
  case True
  then show ?thesis by (simp add: stripLocaleFromPath_def split_first_def filter_Boolean_def)
next
  case False
  define raw where "raw = split_first CHR ''#'' (split_first CHR ''?'' p)"
  define segs where "segs = filter_Boolean (split_on CHR ''/'' raw)"
  have rc: "CHR ''?'' \<notin> set raw" "CHR ''#'' \<notin> set raw"
    using raw_clean[of p] by (simp_all add: raw_def)
  have root: "stripLocaleFromPath ''/'' = ''/''"
    by (simp add: stripLocaleFromPath_def split_first_def filter_Boolean_def)
  show ?thesis
  proof (cases segs)
    case Nil
    with False have "stripLocaleFromPath p = ''/''"
      by (simp add: stripLocaleFromPath_def raw_def segs_def)
    with root show ?thesis by simp
  next
    case (Cons first rest)
    have segprop: "\<forall>x \<in> set rest. x \<noteq> [] \<and> CHR ''/'' \<notin> set x \<and> set x \<subseteq> set raw"
      using segments_clean[of _ raw] Cons by (auto simp: segs_def)
    show ?thesis
    proof (cases "localePattern first")
      case True
      show ?thesis
      proof (cases "rest = []")
        case True
        with \<open>localePattern first\<close> Cons False have "stripLocaleFromPath p = ''/''"
          by (simp add: stripLocaleFromPath_def raw_def segs_def)
        with root show ?thesis by simp
      next
        case rne: False
        let ?q = "CHR ''/'' # join ''/'' rest"
        have q: "stripLocaleFromPath p = ?q"
          using \<open>localePattern first\<close> Cons False rne
          by (simp add: stripLocaleFromPath_def raw_def segs_def)
        have sq: "filter_Boolean (split_on CHR ''/'' ?q) = rest"
          using segments_join[of rest] segprop by (simp add: filter_Boolean_def)
        have "set (join ''/'' rest) \<subseteq> {CHR ''/''} \<union> set raw"
          using set_join[of "''/''" rest] segprop by auto
        with rc have cl: "CHR ''?'' \<notin> set ?q" "CHR ''#'' \<notin> set ?q" by auto
        have "stripLocaleFromPath ?q = ?q"
        proof (rule strip_fixed)
          show "CHR ''?'' \<notin> set ?q" "CHR ''#'' \<notin> set ?q" using cl by auto
          show "startsWith ?q ''/''" by simp
          show "\<not> leading_locale ?q" using noloc q by simp
          show "filter_Boolean (split_on CHR ''/'' ?q) = [] \<Longrightarrow> ?q = ''/''"
            using sq rne by simp
        qed
        with q show ?thesis by simp
      qed
    next
      case nl: False
      let ?q = "if startsWith raw ''/'' then raw else CHR ''/'' # raw"
      have q: "stripLocaleFromPath p = ?q"
        using nl Cons False by (simp add: stripLocaleFromPath_def raw_def segs_def)
      have sq: "filter_Boolean (split_on CHR ''/'' ?q) = first # rest"
        using Cons by (simp add: segs_def filter_Boolean_def)
      have "stripLocaleFromPath ?q = ?q"
      proof (rule strip_fixed)
        show "CHR ''?'' \<notin> set ?q" "CHR ''#'' \<notin> set ?q" using rc by auto
        show "startsWith ?q ''/''" by simp
        show "\<not> leading_locale ?q" using noloc q by simp
        show "filter_Boolean (split_on CHR ''/'' ?q) = [] \<Longrightarrow> ?q = ''/''"
          using sq by simp
      qed
      with q show ?thesis by simp
    qed
  qed
qed

theorem strip_idempotent_without_second_locale_witness:
  "\<not> leading_locale (stripLocaleFromPath ''/en/about?x=1'') \<and>
   stripLocaleFromPath (stripLocaleFromPath ''/en/about?x=1'') = stripLocaleFromPath ''/en/about?x=1'' \<and>
   stripLocaleFromPath ''/en/about?x=1'' = ''/about''"
proof -
  have v: "stripLocaleFromPath ''/en/about?x=1'' = ''/about''"
    by (simp add: stripLocaleFromPath_def split_first_def filter_Boolean_def is_alpha_def)
  have h: "\<not> leading_locale (stripLocaleFromPath ''/en/about?x=1'')"
    unfolding v by (simp add: leading_locale_def filter_Boolean_def)
  from strip_idempotent_without_second_locale[OF h] h v show ?thesis by simp
qed

section \<open>Properties of the matcher\<close>

lemma set_prop_empty: "k \<noteq> ''__proto__'' \<Longrightarrow> set_prop k v [] = [(k, v)]"
  by (simp add: set_prop_def)

lemma set_prop_proto: "set_prop ''__proto__'' v ps = ps"
  by (simp add: set_prop_def)

lemma findIndex_Some:
  "findIndex P xs = Some k \<Longrightarrow> k < length xs \<and> P (xs ! k) \<and> (\<forall>i<k. \<not> P (xs ! i))"
proof (induction xs arbitrary: k)
  case Nil then show ?case by simp
next
  case (Cons x xs)
  show ?case
  proof (cases "P x")
    case True with Cons.prems show ?thesis by simp
  next
    case False
    with Cons.prems obtain j where j: "findIndex P xs = Some j" "k = Suc j"
      by (auto split: option.splits)
    from Cons.IH[OF j(1)] False j(2) show ?thesis
      by (auto simp: nth_Cons split: nat.splits)
  qed
qed

lemma startsWith_star: "startsWith s ''*'' \<Longrightarrow> CHR ''*'' \<in> set s"
  by (cases s) auto

lemma static_prefix_check:
  assumes "k < length rs"
  shows "list_all (\<lambda>i. nth_opt ps i = nth_opt rs i) [0..<k]
           \<longleftrightarrow> k \<le> length ps \<and> take k ps = take k rs"
proof
  assume a: "list_all (\<lambda>i. nth_opt ps i = nth_opt rs i) [0..<k]"
  then have all: "\<And>i. i < k \<Longrightarrow> nth_opt ps i = nth_opt rs i"
    by (simp add: list_all_iff)
  have lt: "\<And>i. i < k \<Longrightarrow> i < length ps \<and> ps ! i = rs ! i"
  proof -
    fix i assume "i < k"
    with all[of i] assms show "i < length ps \<and> ps ! i = rs ! i"
      by (auto simp: nth_opt_def split: if_splits)
  qed
  have len: "k \<le> length ps"
  proof (cases k)
    case 0 then show ?thesis by simp
  next
    case (Suc j)
    with lt[of j] show ?thesis by simp
  qed
  moreover have "take k ps = take k rs"
    using len assms lt by (intro nth_equalityI) auto
  ultimately show "k \<le> length ps \<and> take k ps = take k rs" by simp
next
  assume b: "k \<le> length ps \<and> take k ps = take k rs"
  have "\<And>i. i < k \<Longrightarrow> nth_opt ps i = nth_opt rs i"
  proof -
    fix i assume i: "i < k"
    from b have "take k ps ! i = take k rs ! i" by simp
    with i have "ps ! i = rs ! i" by simp
    with i b assms show "nth_opt ps i = nth_opt rs i" by (simp add: nth_opt_def)
  qed
  then show "list_all (\<lambda>i. nth_opt ps i = nth_opt rs i) [0..<k]"
    by (simp add: list_all_iff)
qed

lemma scan_api_exact:
  "(\<forall>r \<in> set (scanApiDirectory dir prefix files). exact r = None)"
  "(\<forall>r \<in> set (scanApiEntry dir prefix entry). exact r = None)"
proof (induction dir prefix files and dir prefix entry rule: scanApiDirectory_scanApiEntry.induct)
  case (4 d p f)
  then show ?case by (auto simp: api_file_route_def Let_def split: prod.splits)
qed auto

lemma catch_all_params:
  assumes idx: "findIndex (\<lambda>s. startsWith s ''*'') (segments_of routePath) = Some k"
    and seg: "segments_of routePath ! k = CHR ''*'' # name"
  shows "matchDynamicRoute pathname routePath opt =
           (if k \<le> length (segments_of pathname)
               \<and> take k (segments_of pathname) = take k (segments_of routePath)
            then Inr (Some (set_prop (if startsWith name ''?'' then drop 1 name else name)
                              (join ''/'' (drop k (segments_of pathname))) []))
            else Inr None)"
proof -
  let ?rs = "segments_of routePath" and ?ps = "segments_of pathname"
  from findIndex_Some[OF idx] have k: "k < length ?rs" and star: "startsWith (?rs ! k) ''*''"
    by auto
  from k have "?rs ! k \<in> set (split_on CHR ''/'' routePath)"
    using nth_mem[OF k] by (simp add: segments_of_def filter_Boolean_def)
  from split_on_pieces[OF this] startsWith_star[OF star]
  have inc: "includes_char routePath CHR ''*''" by (auto simp: includes_char_def)
  have nth: "nth_opt ?rs k = Some (CHR ''*'' # name)" using k seg by (simp add: nth_opt_def)
  have nm: "catchAllParamName (CHR ''*'' # name) = (if startsWith name ''?'' then drop 1 name else name)"
    by (simp add: catchAllParamName_def slice1_def)
  have short: "length ?ps \<le> k \<Longrightarrow> join ''/'' (drop k ?ps) = []" by simp
  show ?thesis
    using idx inc nth nm static_prefix_check[OF k, of ?ps] short
    by (auto simp: matchDynamicRoute_def segments_of_def[symmetric] Let_def)
qed

text \<open>
  For a route with a catch-all segment \<^verbatim>\<open>*name\<close> (the first segment that starts with
  \<^verbatim>\<open>*\<close>, at index \<open>k\<close>) whose name is not \<^verbatim>\<open>__proto__\<close>, \<^verbatim>\<open>matchDynamicRoute\<close> matches exactly
  the paths whose first \<open>k\<close> segments are literally the first \<open>k\<close> segments of the
  route, and binds the name (without the \<^verbatim>\<open>?\<close> marker of an optional catch-all) to the
  remaining segments joined by \<^verbatim>\<open>/\<close>; a path that stops at the catch-all position
  matches with the empty string, whether the catch-all is optional or not. For the
  name \<^verbatim>\<open>__proto__\<close> the same paths match, with no parameter at all.
\<close>

lemma catch_all_binding_ordinary_name:
  assumes idx: "findIndex (\<lambda>s. startsWith s ''*'') (segments_of routePath) = Some k"
    and seg: "segments_of routePath ! k = CHR ''*'' # name"
    and key: "key = (if startsWith name ''?'' then drop 1 name else name)"
    and ordinary: "key \<noteq> ''__proto__''"
  shows "matchDynamicRoute pathname routePath opt =
           (if k \<le> length (segments_of pathname)
               \<and> take k (segments_of pathname) = take k (segments_of routePath)
            then Inr (Some [(key, join ''/'' (drop k (segments_of pathname)))])
            else Inr None)"
  using catch_all_params[OF idx seg, of pathname opt] key ordinary
  by (simp add: set_prop_empty)

lemma catch_all_binding_proto:
  assumes idx: "findIndex (\<lambda>s. startsWith s ''*'') (segments_of routePath) = Some k"
    and seg: "segments_of routePath ! k = CHR ''*'' # name"
    and key: "(if startsWith name ''?'' then drop 1 name else name) = ''__proto__''"
  shows "matchDynamicRoute pathname routePath opt =
           (if k \<le> length (segments_of pathname)
               \<and> take k (segments_of pathname) = take k (segments_of routePath)
            then Inr (Some [])
            else Inr None)"
  using catch_all_params[OF idx seg, of pathname opt] key
  by (simp add: set_prop_proto)

text \<open>
  Claim C6 says that for every catch-all route the matcher binds the remaining
  segments, joined by \<^verbatim>\<open>/\<close>, as the value of the parameter. \<^verbatim>\<open>matchDynamicRoute\<close> collects
  the parameters in an object literal and assigns \<^verbatim>\<open>params[paramName]\<close>. For the route
  \<^verbatim>\<open>/docs/*__proto__\<close>, which the directory \<^verbatim>\<open>[...__proto__]\<close> registers, that assignment
  reaches the \<^verbatim>\<open>__proto__\<close> setter of \<^verbatim>\<open>Object.prototype\<close>, which ignores a string: the
  path \<^verbatim>\<open>/docs/a/b/c\<close> matches with no parameter, where the claim binds \<^verbatim>\<open>a/b/c\<close>. The
  routes \<^verbatim>\<open>/docs/*path\<close> and \<^verbatim>\<open>/shop/*rest\<close> behave as the claim says, with a tail and
  without one, optional or not.
\<close>

theorem catch_all_proto_unbound:
  "matchDynamicRoute ''/docs/a/b/c'' ''/docs/*__proto__'' False = Inr (Some [])
   \<and> matchDynamicRoute ''/docs/a/b/c'' ''/docs/*path'' False = Inr (Some [(''path'', ''a/b/c'')])
   \<and> matchDynamicRoute ''/blog/a/b/c'' ''/docs/*path'' False = Inr None
   \<and> matchDynamicRoute ''/shop'' ''/shop/*rest'' True = Inr (Some [(''rest'', [])])
   \<and> matchDynamicRoute ''/shop'' ''/shop/*rest'' False = Inr (Some [(''rest'', [])])"
proof -
  have sp: "segments_of ''/docs/*__proto__'' = [''docs'', ''*__proto__'']"
    by (simp add: segments_of_def filter_Boolean_def)
  have sd: "segments_of ''/docs/*path'' = [''docs'', ''*path'']"
    by (simp add: segments_of_def filter_Boolean_def)
  have ss: "segments_of ''/shop/*rest'' = [''shop'', ''*rest'']"
    by (simp add: segments_of_def filter_Boolean_def)
  have p1: "segments_of ''/docs/a/b/c'' = [''docs'', ''a'', ''b'', ''c'']"
    by (simp add: segments_of_def filter_Boolean_def)
  have p2: "segments_of ''/blog/a/b/c'' = [''blog'', ''a'', ''b'', ''c'']"
    by (simp add: segments_of_def filter_Boolean_def)
  have p3: "segments_of ''/shop'' = [''shop'']"
    by (simp add: segments_of_def filter_Boolean_def)
  have i1: "findIndex (\<lambda>s. startsWith s ''*'') (segments_of ''/docs/*__proto__'') = Some 1"
    by (simp add: sp)
  have i2: "findIndex (\<lambda>s. startsWith s ''*'') (segments_of ''/docs/*path'') = Some 1"
    by (simp add: sd)
  have i3: "findIndex (\<lambda>s. startsWith s ''*'') (segments_of ''/shop/*rest'') = Some 1"
    by (simp add: ss)
  have a: "matchDynamicRoute ''/docs/a/b/c'' ''/docs/*__proto__'' False = Inr (Some [])"
    using catch_all_binding_proto[OF i1, of "''__proto__''" "''/docs/a/b/c''" False]
    by (simp add: sp p1)
  have b: "matchDynamicRoute ''/docs/a/b/c'' ''/docs/*path'' False = Inr (Some [(''path'', ''a/b/c'')])"
    using catch_all_binding_ordinary_name[OF i2, of "''path''" "''path''" "''/docs/a/b/c''" False]
    by (simp add: sd p1)
  have c: "matchDynamicRoute ''/blog/a/b/c'' ''/docs/*path'' False = Inr None"
    using catch_all_binding_ordinary_name[OF i2, of "''path''" "''path''" "''/blog/a/b/c''" False]
    by (simp add: sd p2)
  have d: "matchDynamicRoute ''/shop'' ''/shop/*rest'' True = Inr (Some [(''rest'', [])])"
    using catch_all_binding_ordinary_name[OF i3, of "''rest''" "''rest''" "''/shop''" True]
    by (simp add: ss p3)
  have e: "matchDynamicRoute ''/shop'' ''/shop/*rest'' False = Inr (Some [(''rest'', [])])"
    using catch_all_binding_ordinary_name[OF i3, of "''rest''" "''rest''" "''/shop''" False]
    by (simp add: ss p3)
  from a b c d e show ?thesis by simp
qed



text \<open>
  Claim C10: a route that is not dynamic and whose \<open>exact\<close> flag is unset or false matches
  every pathname of which its path is a string prefix, with no parameters; the scan of
  the API tree never sets \<open>exact\<close>. The witness is the example of the claim: the route of
  \<^verbatim>\<open>src/api/users/route.ts\<close> answers \<^verbatim>\<open>/api/users-admin\<close>.
\<close>

theorem prefix_match_without_exact:
  assumes "\<not> truthy_flag (dynamic route)"
    and "exact route = None \<or> exact route = Some False"
    and "startsWith pathname (path route)"
  shows "route_match pathname route = Inr (Some [])
         \<and> matchRoute pathname (route # routes) = Inr (Some (route, []))
         \<and> (\<forall>r \<in> set (scanApiDirectory dir prefix files). exact r = None)"
  using assms scan_api_exact(1)[of dir prefix files]
  by (auto simp: route_match_def truthy_flag_def)

theorem prefix_match_without_exact_witness:
  "scanApiDirectory ''/proj/src/api'' ''/api'' [Dir ''users'' [File ''route.ts'']] = [api_users_route]
   \<and> \<not> truthy_flag (dynamic api_users_route)
   \<and> (exact api_users_route = None \<or> exact api_users_route = Some False)
   \<and> startsWith ''/api/users-admin'' (path api_users_route)
   \<and> matchRoute ''/api/users-admin'' [api_users_route] = Inr (Some (api_users_route, []))"
proof -
  have a: "\<not> truthy_flag (dynamic api_users_route)"
    by (simp add: api_users_route_def truthy_flag_def)
  have b: "exact api_users_route = None \<or> exact api_users_route = Some False"
    by (simp add: api_users_route_def)
  have c: "startsWith ''/api/users-admin'' (path api_users_route)"
    by (simp add: api_users_route_def)
  have d: "scanApiDirectory ''/proj/src/api'' ''/api'' [Dir ''users'' [File ''route.ts'']] = [api_users_route]"
    by (simp add: api_users_route_def api_file_route_def api_dir_prefix_def path_join_def
          endsWith_def strip_ts_js_def includes_char_def)
  from prefix_match_without_exact[OF a b c, of "[]"] a b c d show ?thesis by simp
qed

section \<open>The route stage\<close>

lemma startsWith_append: "startsWith s p \<Longrightarrow> \<exists>rest. s = p @ rest"
  by (induction s p rule: startsWith.induct) auto

lemma api_path_keeps_raw:
  assumes "startsWith rawPath ''/api/''"
  shows "effectivePath_of rawPath = rawPath"
proof -
  from startsWith_append[OF assms] obtain rest where r: "rawPath = ''/api/'' @ rest"
    by blast
  obtain y ys where sp: "split_on CHR ''/'' rest = y # ys"
    using split_on_nonempty[of "CHR ''/''" rest] by (cases "split_on CHR ''/'' rest") auto
  have "filter_Boolean (split_on CHR ''/'' rawPath) = ''api'' # filter_Boolean (split_on CHR ''/'' rest)"
    unfolding r by (simp add: filter_Boolean_def sp)
  then show ?thesis by (simp add: effectivePath_of_def)
qed

text \<open>
  Claim C5: the route stage searches the API table first, whatever the path. A path
  that an API route matches goes to that route's handler. A path under \<^verbatim>\<open>/api/\<close> that no
  API route matches is answered with status 404 there and then: the page table is not
  searched, whatever it holds. Such a path has no locale prefix, so it is routed as
  it was requested.
\<close>

theorem api_namespace_closure:
  "(fst (route_stage p apiRoutes routes) = [ApiTable]
      \<or> fst (route_stage p apiRoutes routes) = [ApiTable, PageTable])
   \<and> (matchRoute p apiRoutes = Inr (Some (r, ps))
        \<longrightarrow> route_stage p apiRoutes routes = ([ApiTable], HandleApiRoute r ps))
   \<and> (startsWith p ''/api/'' \<and> matchRoute p apiRoutes = Inr None
        \<longrightarrow> route_stage p apiRoutes routes = ([ApiTable], ApiNotFound404)
            \<and> dispatch_status (snd (route_stage p apiRoutes routes)) = Some 404
            \<and> effectivePath_of p = p)"
proof (intro conjI impI)
  show "fst (route_stage p apiRoutes routes) = [ApiTable]
      \<or> fst (route_stage p apiRoutes routes) = [ApiTable, PageTable]"
    by (simp add: route_stage_def split: sum.splits option.splits prod.splits)
next
  assume "matchRoute p apiRoutes = Inr (Some (r, ps))"
  then show "route_stage p apiRoutes routes = ([ApiTable], HandleApiRoute r ps)"
    by (simp add: route_stage_def)
next
  assume a: "startsWith p ''/api/'' \<and> matchRoute p apiRoutes = Inr None"
  then show "route_stage p apiRoutes routes = ([ApiTable], ApiNotFound404)"
    by (simp add: route_stage_def)
  then show "dispatch_status (snd (route_stage p apiRoutes routes)) = Some 404"
    by simp
  from a show "effectivePath_of p = p" by (simp add: api_path_keeps_raw)
qed

theorem api_namespace_closure_witness:
  "startsWith ''/api/missing'' ''/api/''
   \<and> matchRoute ''/api/missing'' [api_users_route] = Inr None
   \<and> matchRoute ''/api/missing'' [root_catch_all_route]
        = Inr (Some (root_catch_all_route, [(''path'', ''api/missing'')]))
   \<and> route_stage ''/api/missing'' [api_users_route] [root_catch_all_route]
        = ([ApiTable], ApiNotFound404)
   \<and> matchRoute ''/api/users'' [api_users_route] = Inr (Some (api_users_route, []))
   \<and> route_stage ''/api/users'' [api_users_route] [root_catch_all_route]
        = ([ApiTable], HandleApiRoute api_users_route [])"
proof -
  have a: "startsWith ''/api/missing'' ''/api/''" by simp
  have b: "matchRoute ''/api/missing'' [api_users_route] = Inr None"
    by (simp add: route_match_def api_users_route_def truthy_flag_def)
  have c: "matchRoute ''/api/missing'' [root_catch_all_route]
        = Inr (Some (root_catch_all_route, [(''path'', ''api/missing'')]))"
    by (simp add: route_match_def root_catch_all_route_def truthy_flag_def matchDynamicRoute_def
          filter_Boolean_def includes_char_def slice1_def catchAllParamName_def nth_opt_def
          set_prop_empty)
  have d: "matchRoute ''/api/users'' [api_users_route] = Inr (Some (api_users_route, []))"
    by (simp add: route_match_def api_users_route_def truthy_flag_def)
  from api_namespace_closure[of "''/api/missing''" "[api_users_route]" "[root_catch_all_route]"] a b
  have e: "route_stage ''/api/missing'' [api_users_route] [root_catch_all_route]
        = ([ApiTable], ApiNotFound404)" by simp
  from api_namespace_closure[of "''/api/users''" "[api_users_route]" "[root_catch_all_route]"
         api_users_route "[]"] d
  have f: "route_stage ''/api/users'' [api_users_route] [root_catch_all_route]
        = ([ApiTable], HandleApiRoute api_users_route [])" by simp
  from a b c d e f show ?thesis by simp
qed

section \<open>Compiled artifacts and the compilation cache\<close>

lemma compiledServerPath_page:
  "compiledServerPath ''/proj/.satset/temp'' ''/proj/src/app/a/page.tsx'' = ''/proj/.satset/temp/page.server.js''"
  "compiledServerPath ''/proj/.satset/temp'' ''/proj/src/app/b/page.tsx'' = ''/proj/.satset/temp/page.server.js''"
  by (simp_all add: compiledServerPath_def path_join_def basename_def strip_ext_def)

lemma path_relative_examples:
  "path_relative ''/proj'' ''/proj/src/api/users/route.ts'' = ''src/api/users/route.ts''"
  "path_relative ''/proj'' ''/proj/src/api/posts/route.ts'' = ''src/api/posts/route.ts''"
  by (simp_all add: path_relative_def filter_Boolean_def)

lemma compiledApiPath_users:
  "compiledApiPath ''/proj'' ''/proj/.satset/temp'' ''/proj/src/api/users/route.ts''
     = ''/proj/.satset/temp/src_api_users_route.api.server.js''"
  by (simp add: compiledApiPath_def safeComponentKey_def path_relative_examples
        backslashes_to_slashes_def strip_ext_def safe_chars_def is_alpha_def is_digit_def
        path_join_def)

lemma compiledApiPath_posts:
  "compiledApiPath ''/proj'' ''/proj/.satset/temp'' ''/proj/src/api/posts/route.ts''
     = ''/proj/.satset/temp/src_api_posts_route.api.server.js''"
  by (simp add: compiledApiPath_def safeComponentKey_def path_relative_examples
        backslashes_to_slashes_def strip_ext_def safe_chars_def is_alpha_def is_digit_def
        path_join_def)

lemma safeBundle_first:
  "\<exists>rest. fst (safeBundle w entry out) = Bundle (BundleOpts entry out (Some True)) # rest"
  by (simp add: safeBundle_def Let_def split: option.splits)

lemma handlePageRoute_first_bundle:
  assumes "\<not> isClientOnlyPage w (component route)"
  shows "hd (fst (handlePageRoute w tempDir route allRoutes locale))
           = Bundle (BundleOpts (component route) (compiledServerPath tempDir (component route))
                       (Some True))"
proof -
  obtain bundling failure where sb:
    "safeBundle w (component route) (compiledServerPath tempDir (component route)) = (bundling, failure)"
    by (cases "safeBundle w (component route) (compiledServerPath tempDir (component route))")
  from safeBundle_first[of w "component route" "compiledServerPath tempDir (component route)"] sb
  obtain rest where "bundling = Bundle (BundleOpts (component route)
        (compiledServerPath tempDir (component route)) (Some True)) # rest" by auto
  with assms sb show ?thesis
    by (auto simp: handlePageRoute_def Let_def split: option.splits jsval.splits prod.splits sum.splits)
qed

text \<open>
  Claim C2 says that two distinct source files never share a compiled artifact. For
  API handlers the artifact is named after the path of the source relative to the
  project, and two \<^verbatim>\<open>route.ts\<close> in different directories get different artifacts. For
  pages \<^verbatim>\<open>handlePageRoute\<close> names the artifact after the base name of the source alone:
  the pages \<^verbatim>\<open>src/app/a/page.tsx\<close> and \<^verbatim>\<open>src/app/b/page.tsx\<close> are both compiled to
  \<^verbatim>\<open>page.server.js\<close>, and the compiler is called with that one output file for both.
\<close>

theorem page_artifacts_alias:
  "component page_a_route \<noteq> component page_b_route
   \<and> compiledServerPath ''/proj/.satset/temp'' (component page_a_route)
       = compiledServerPath ''/proj/.satset/temp'' (component page_b_route)
   \<and> hd (fst (handlePageRoute (demo_world sync_page) ''/proj/.satset/temp'' page_a_route [] ''en-US''))
       = Bundle (BundleOpts ''/proj/src/app/a/page.tsx'' ''/proj/.satset/temp/page.server.js'' (Some True))
   \<and> hd (fst (handlePageRoute (demo_world sync_page) ''/proj/.satset/temp'' page_b_route [] ''en-US''))
       = Bundle (BundleOpts ''/proj/src/app/b/page.tsx'' ''/proj/.satset/temp/page.server.js'' (Some True))
   \<and> compiledApiPath ''/proj'' ''/proj/.satset/temp'' ''/proj/src/api/users/route.ts''
       \<noteq> compiledApiPath ''/proj'' ''/proj/.satset/temp'' ''/proj/src/api/posts/route.ts''"
proof -
  have nc: "\<not> isClientOnlyPage (demo_world sync_page) (component page_a_route)"
           "\<not> isClientOnlyPage (demo_world sync_page) (component page_b_route)"
    by (simp_all add: demo_world_def)
  have a: "component page_a_route = ''/proj/src/app/a/page.tsx''"
    and b: "component page_b_route = ''/proj/src/app/b/page.tsx''"
    by (simp_all add: page_a_route_def page_b_route_def)
  from handlePageRoute_first_bundle[OF nc(1), of "''/proj/.satset/temp''" "[]" "''en-US''"]
       handlePageRoute_first_bundle[OF nc(2), of "''/proj/.satset/temp''" "[]" "''en-US''"]
  show ?thesis
    by (simp add: a b compiledServerPath_page compiledApiPath_users compiledApiPath_posts)
qed

section \<open>Choice of the API handler\<close>

text \<open>
  Claim C3 says that a request whose method has a method-named export is answered by
  that export even when the module has a default export too. The dispatch in
  \<^verbatim>\<open>handleApiRoute\<close> does look for the method name first, but \<^verbatim>\<open>resolveHandler\<close> returns
  the default export alone as soon as there is one, so the method-named exports never
  reach the dispatch: a \<^verbatim>\<open>GET\<close> request to a module that exports \<^verbatim>\<open>GET\<close> and a default
  function calls the default function.
\<close>

theorem default_export_shadows_method_export:
  "resolveHandler users_module = Some [(''default'', default_handler)]
   \<and> choose_handler (resolveHandler users_module) (request_method (Some ''GET''))
       = ApiCalls ''default'' default_handler
   \<and> handleApiRoute (demo_world sync_page) ''/proj'' ''/proj/.satset/temp'' api_users_route (Some ''GET'')
       = ([Require ''/proj/.satset/temp/src_api_users_route.api.server.js'',
           CallHandler default_handler],
          ApiCalls ''default'' default_handler)
   \<and> get_users \<noteq> default_handler"
proof -
  have r: "resolveHandler users_module = Some [(''default'', default_handler)]"
    by (simp add: resolveHandler_def users_module_def)
  have m: "request_method (Some ''GET'') = ''GET''"
    by (simp add: request_method_def to_upper_def)
  have c: "choose_handler (Some [(''default'', default_handler)]) ''GET''
             = ApiCalls ''default'' default_handler"
    by (simp add: choose_handler_def)
  have h: "handleApiRoute (demo_world sync_page) ''/proj'' ''/proj/.satset/temp'' api_users_route (Some ''GET'')
       = ([Require ''/proj/.satset/temp/src_api_users_route.api.server.js'',
           CallHandler default_handler],
          ApiCalls ''default'' default_handler)"
    by (simp add: handleApiRoute_def api_users_route_def compiledApiPath_users needsBundle_def
          demo_world_def r m c)
  have d: "get_users \<noteq> default_handler" by (simp add: get_users_def default_handler_def)
  from r m c h d show ?thesis by simp
qed

lemma safeBundle_bundles: "list_ex is_Bundle (fst (safeBundle w entry out))"
  by (simp add: safeBundle_def Let_def split: option.splits)

lemma handlePageRoute_bundles:
  "list_ex is_Bundle (fst (handlePageRoute w tempDir route allRoutes locale))"
proof (cases "isClientOnlyPage w (component route)")
  case True
  then show ?thesis by (simp add: handlePageRoute_def Let_def split: option.splits)
next
  case False
  obtain bundling failure where sb:
    "safeBundle w (component route) (compiledServerPath tempDir (component route)) = (bundling, failure)"
    by (cases "safeBundle w (component route) (compiledServerPath tempDir (component route))")
  from safeBundle_bundles[of w "component route" "compiledServerPath tempDir (component route)"] sb
  have "list_ex is_Bundle bundling" by simp
  with False sb show ?thesis
    by (auto simp: handlePageRoute_def Let_def split: option.splits jsval.splits prod.splits sum.splits)
qed

text \<open>
  Claim C4 says that no resolution of a module calls the compiler when an artifact at
  least as new as the source exists. \<^verbatim>\<open>handlePageRoute\<close> has no such check: it compiles
  the page on every request. Here the artifact of the page has modification time 20,
  the source 10, and the compiler is called.
\<close>

theorem page_compiled_despite_fresh_artifact:
  "mtime (demo_world sync_page) (component page_a_route) = Some 10
   \<and> mtime (demo_world sync_page) (compiledServerPath ''/proj/.satset/temp'' (component page_a_route)) = Some 20
   \<and> list_ex is_Bundle
        (fst (handlePageRoute (demo_world sync_page) ''/proj/.satset/temp'' page_a_route [] ''en-US''))"
  using handlePageRoute_bundles[of "demo_world sync_page" "''/proj/.satset/temp''" page_a_route "[]" "''en-US''"]
  by (simp add: page_a_route_def compiledServerPath_page demo_world_def)

text \<open>
  Claim C4, amended: the resolution of an API handler does not call the compiler when
  its artifact exists and is at least as new as the source; the resolution of a page
  calls the compiler on every request, whatever the modification times.
\<close>

theorem api_cache_validity:
  assumes "mtime w (compiledApiPath root tempDir (component route)) = Some outMtime"
    and "mtime w (component route) = Some srcMtime"
    and "srcMtime \<le> outMtime"
  shows "\<not> list_ex is_Bundle (fst (handleApiRoute w root tempDir route reqMethod))
         \<and> list_ex is_Bundle (fst (handlePageRoute w tempDir pageRoute allRoutes loc))"
proof -
  from assms have "\<not> needsBundle w (component route) (compiledApiPath root tempDir (component route))"
    by (simp add: needsBundle_def)
  then have "\<not> list_ex is_Bundle (fst (handleApiRoute w root tempDir route reqMethod))"
    by (simp add: handleApiRoute_def Let_def split: option.splits api_outcome.splits)
  with handlePageRoute_bundles show ?thesis by simp
qed

theorem api_cache_validity_witness:
  "mtime (demo_world sync_page) (compiledApiPath ''/proj'' ''/proj/.satset/temp'' (component api_users_route)) = Some 20
   \<and> mtime (demo_world sync_page) (component api_users_route) = Some 10
   \<and> (10::nat) \<le> 20
   \<and> \<not> list_ex is_Bundle
        (fst (handleApiRoute (demo_world sync_page) ''/proj'' ''/proj/.satset/temp'' api_users_route (Some ''GET'')))
   \<and> list_ex is_Bundle
        (fst (handlePageRoute (demo_world sync_page) ''/proj/.satset/temp'' page_a_route [] ''en-US''))"
proof -
  have a: "mtime (demo_world sync_page) (compiledApiPath ''/proj'' ''/proj/.satset/temp'' (component api_users_route)) = Some 20"
    by (simp add: api_users_route_def compiledApiPath_users demo_world_def)
  have b: "mtime (demo_world sync_page) (component api_users_route) = Some 10"
    by (simp add: api_users_route_def demo_world_def)
  have c: "(10::nat) \<le> 20" by simp
  from api_cache_validity[OF a b c, where reqMethod = "Some ''GET''" and pageRoute = page_a_route
         and allRoutes = "[]" and loc = "''en-US''"]
       a b c show ?thesis by simp
qed

section \<open>Signals and errors while a page is rendered\<close>

lemma load_layouts_no_render:
  "\<not> list_ex is_RenderToString (fst (load_layouts w tempDir files))"
  by (induction files) (auto simp: Let_def split: option.splits prod.splits jsval.splits)

lemma safeBundle_no_render:
  "\<not> list_ex is_RenderToString (fst (safeBundle w entry out))"
  by (simp add: safeBundle_def Let_def split: option.splits)

lemma to_int32_small: "- 2147483648 \<le> n \<Longrightarrow> n < 2147483648 \<Longrightarrow> to_int32 n = n"
  by (simp add: to_int32_def)

lemma header_name_Location: "header_name_ok ''Location''"
  by (simp add: header_name_ok_def token_char_def is_alpha_def)

lemma redirect_response_value:
  assumes "url \<noteq> []" and "header_value_ok url" and "100 \<le> st" and "st \<le> 999"
  shows "redirect_response (redirect url st)
           = Sent \<lparr>res_status = st, res_headers = [(''Location'', url)], res_body = NoBody\<rparr>"
proof -
  from assms have "to_int32 st = st" by (simp add: to_int32_small)
  with assms header_name_Location show ?thesis
    by (simp add: redirect_response_def redirect_def sendSatsetResponse_def
          SatsetResponse_redirect_def header_truthy_def header_def writeHead_end_def)
qed

text \<open>
  A status that Node refuses: the call of \<^verbatim>\<open>writeHead\<close> raises inside the un-awaited
  \<^verbatim>\<open>sendSatsetResponse\<close> and the request gets no response.
\<close>

lemma redirect_response_refused:
  assumes "url \<noteq> []" and "st \<noteq> 0" and "to_int32 st < 100 \<or> to_int32 st > 999"
  shows "redirect_response (redirect url st) = NothingSent RangeError"
  using assms
  by (auto simp: redirect_response_def redirect_def sendSatsetResponse_def
        SatsetResponse_redirect_def header_truthy_def header_def writeHead_end_def)

lemma render_failed_redirect:
  assumes "url \<noteq> []" and "header_value_ok url" and "100 \<le> st" and "st \<le> 999"
  shows "render_failed w tempDir allRoutes (redirect url st)
           = ([], Sent \<lparr>res_status = st, res_headers = [(''Location'', url)], res_body = NoBody\<rparr>)"
proof -
  have "truthy (js_and (redirect url st) (get_prop (redirect url st) ''__SATSET_REDIRECT''))"
    by (simp add: redirect_def js_and_def)
  then show ?thesis
    using redirect_response_value[OF assms] by (simp add: render_failed_def)
qed

lemma login_307_ok:
  "''/login'' \<noteq> []" "header_value_ok ''/login''" "(100::int) \<le> 307" "(307::int) \<le> 999"
  by (simp_all add: header_value_ok_def)

text \<open>
  Claim C8 says that the rendering engine is never invoked when the page throws a
  redirect signal. A page component that is not async is only ever run by the
  rendering engine: the handler creates an element for it and passes the wrapped
  application to \<^verbatim>\<open>renderToString\<close>, and the signal comes out of that call. Here the
  page is synchronous and redirects to \<^verbatim>\<open>/login\<close> with status 307: the response is the
  redirect, and the rendering engine has been invoked.
\<close>

theorem redirect_thrown_inside_rendering_engine:
  "\<not> fn_async sync_page
   \<and> handlePageRoute (demo_world sync_page) ''/proj/.satset/temp'' page_a_route [] ''en-US''
       = ([Bundle (BundleOpts ''/proj/src/app/a/page.tsx'' ''/proj/.satset/temp/page.server.js'' (Some True)),
           Require ''/proj/.satset/temp/page.server.js'',
           RenderToString (WrappedApp ''en-US'' (Created sync_page))],
          Sent \<lparr>res_status = 307, res_headers = [(''Location'', ''/login'')], res_body = NoBody\<rparr>)
   \<and> renderToString (demo_world sync_page) (WrappedApp ''en-US'' (Created sync_page))
       = Inl (redirect ''/login'' 307)
   \<and> list_ex is_RenderToString
        (fst (handlePageRoute (demo_world sync_page) ''/proj/.satset/temp'' page_a_route [] ''en-US''))"
proof -
  have rp: "render_page (demo_world sync_page) ''/proj/.satset/temp'' page_a_route ''en-US'' sync_page
              = ([RenderToString (WrappedApp ''en-US'' (Created sync_page))],
                 Inl (redirect ''/login'' 307))"
    by (simp add: render_page_def demo_world_def sync_page_def)
  have rc: "resolveExportedComponent (JObj [(''default'', JFun sync_page)]) = JFun sync_page"
    by (simp add: resolveExportedComponent_def)
  have sb: "safeBundle (demo_world sync_page) ''/proj/src/app/a/page.tsx'' ''/proj/.satset/temp/page.server.js''
              = ([Bundle (BundleOpts ''/proj/src/app/a/page.tsx'' ''/proj/.satset/temp/page.server.js'' (Some True))], None)"
    by (simp add: safeBundle_def demo_world_def)
  have rq: "require (demo_world sync_page) ''/proj/.satset/temp/page.server.js''
              = Some (JObj [(''default'', JFun sync_page)])"
    by (simp add: demo_world_def)
  have nc: "\<not> isClientOnlyPage (demo_world sync_page) ''/proj/src/app/a/page.tsx''"
    by (simp add: demo_world_def)
  have c: "component page_a_route = ''/proj/src/app/a/page.tsx''"
    by (simp add: page_a_route_def)
  have h: "handlePageRoute (demo_world sync_page) ''/proj/.satset/temp'' page_a_route [] ''en-US''
       = ([Bundle (BundleOpts ''/proj/src/app/a/page.tsx'' ''/proj/.satset/temp/page.server.js'' (Some True)),
           Require ''/proj/.satset/temp/page.server.js'',
           RenderToString (WrappedApp ''en-US'' (Created sync_page))],
          Sent \<lparr>res_status = 307, res_headers = [(''Location'', ''/login'')], res_body = NoBody\<rparr>)"
    by (simp add: handlePageRoute_def Let_def c nc compiledServerPath_page sb rq rc rp
          render_failed_redirect[OF login_307_ok])
  have r: "renderToString (demo_world sync_page) (WrappedApp ''en-US'' (Created sync_page))
       = Inl (redirect ''/login'' 307)"
    by (simp add: demo_world_def)
  have a: "\<not> fn_async sync_page" by (simp add: sync_page_def)
  from a h r show ?thesis by simp
qed

text \<open>
  Claim C8, amended: when the rendering of a page throws a redirect signal whose target
  is a non-empty string that a header may hold (no control character but the tab)
  and whose status lies between 100 and 999, as \<^verbatim>\<open>/login\<close> and 307 do, the handler
  answers with that status, a \<^verbatim>\<open>Location\<close> header equal to the target and no body, and
  calls no collaborator after the signal: no markup is produced. When an async page
  component throws the signal from its own call, the rendering engine is not invoked
  at all; a synchronous page component throws it from inside the one call of the
  rendering engine.
\<close>

theorem redirect_short_circuit:
  assumes nc: "\<not> isClientOnlyPage w (component route)"
    and sb: "safeBundle w (component route) (compiledServerPath tempDir (component route))
               = (bundling, None)"
    and rq: "require w (compiledServerPath tempDir (component route)) = Some PageModule"
    and pc: "resolveExportedComponent PageModule = JFun PageComponent"
    and rp: "render_page w tempDir route loc PageComponent = (rendering, Inl (redirect url st))"
    and url: "url \<noteq> []" "header_value_ok url"
    and st: "100 \<le> st" "st \<le> 999"
  shows "handlePageRoute w tempDir route allRoutes loc
           = (bundling @ [Require (compiledServerPath tempDir (component route))] @ rendering,
              Sent \<lparr>res_status = st, res_headers = [(''Location'', url)], res_body = NoBody\<rparr>)
         \<and> (fn_async PageComponent \<and> callComponent w PageComponent = Inl (redirect url st)
              \<longrightarrow> \<not> list_ex is_RenderToString (fst (handlePageRoute w tempDir route allRoutes loc)))
         \<and> (\<not> fn_async PageComponent
              \<longrightarrow> (\<exists>el. last (fst (handlePageRoute w tempDir route allRoutes loc)) = RenderToString el
                        \<and> renderToString w el = Inl (redirect url st)))"
proof -
  let ?compiled = "compiledServerPath tempDir (component route)"
  have h: "handlePageRoute w tempDir route allRoutes loc
           = (bundling @ [Require ?compiled] @ rendering,
              Sent \<lparr>res_status = st, res_headers = [(''Location'', url)], res_body = NoBody\<rparr>)"
    using nc sb rq pc rp
    by (simp add: handlePageRoute_def Let_def render_failed_redirect[OF url st])
  have nb: "\<not> list_ex is_RenderToString bundling"
    using safeBundle_no_render[of w "component route" ?compiled] sb by simp
  obtain loading layouts where ll:
    "load_layouts w tempDir (findLayoutFiles w (dirname (component route))) = (loading, layouts)"
    by (cases "load_layouts w tempDir (findLayoutFiles w (dirname (component route)))")
  have nl: "\<not> list_ex is_RenderToString loading"
    using load_layouts_no_render[of w tempDir "findLayoutFiles w (dirname (component route))"] ll
    by simp
  have async: "fn_async PageComponent \<and> callComponent w PageComponent = Inl (redirect url st)
       \<longrightarrow> \<not> list_ex is_RenderToString (fst (handlePageRoute w tempDir route allRoutes loc))"
  proof
    assume a: "fn_async PageComponent \<and> callComponent w PageComponent = Inl (redirect url st)"
    with rp ll have "rendering = loading @ [CallComponent PageComponent]"
      by (simp add: render_page_def)
    with h nb nl show "\<not> list_ex is_RenderToString (fst (handlePageRoute w tempDir route allRoutes loc))"
      by simp
  qed
  have sync: "\<not> fn_async PageComponent
       \<longrightarrow> (\<exists>el. last (fst (handlePageRoute w tempDir route allRoutes loc)) = RenderToString el
                 \<and> renderToString w el = Inl (redirect url st))"
  proof
    assume a: "\<not> fn_async PageComponent"
    let ?app = "WrappedApp loc (foldr InLayout layouts (Created PageComponent))"
    from a rp ll have "rendering = loading @ [RenderToString ?app]"
      and "renderToString w ?app = Inl (redirect url st)"
      by (simp_all add: render_page_def Let_def)
    with h show "\<exists>el. last (fst (handlePageRoute w tempDir route allRoutes loc)) = RenderToString el
                 \<and> renderToString w el = Inl (redirect url st)"
      by simp
  qed
  from h async sync show ?thesis by simp
qed

theorem redirect_short_circuit_witness:
  "\<not> isClientOnlyPage (demo_world async_page) (component page_a_route)
   \<and> safeBundle (demo_world async_page) (component page_a_route)
        (compiledServerPath ''/proj/.satset/temp'' (component page_a_route))
       = ([Bundle (BundleOpts ''/proj/src/app/a/page.tsx'' ''/proj/.satset/temp/page.server.js'' (Some True))], None)
   \<and> require (demo_world async_page) (compiledServerPath ''/proj/.satset/temp'' (component page_a_route))
       = Some (JObj [(''default'', JFun async_page)])
   \<and> resolveExportedComponent (JObj [(''default'', JFun async_page)]) = JFun async_page
   \<and> render_page (demo_world async_page) ''/proj/.satset/temp'' page_a_route ''en-US'' async_page
       = ([CallComponent async_page], Inl (redirect ''/login'' 307))
   \<and> ''/login'' \<noteq> [] \<and> header_value_ok ''/login'' \<and> (100::int) \<le> 307 \<and> (307::int) \<le> 999
   \<and> fn_async async_page
   \<and> callComponent (demo_world async_page) async_page = Inl (redirect ''/login'' 307)
   \<and> handlePageRoute (demo_world async_page) ''/proj/.satset/temp'' page_a_route [] ''en-US''
       = ([Bundle (BundleOpts ''/proj/src/app/a/page.tsx'' ''/proj/.satset/temp/page.server.js'' (Some True)),
           Require ''/proj/.satset/temp/page.server.js'',
           CallComponent async_page],
          Sent \<lparr>res_status = 307, res_headers = [(''Location'', ''/login'')], res_body = NoBody\<rparr>)
   \<and> \<not> list_ex is_RenderToString
        (fst (handlePageRoute (demo_world async_page) ''/proj/.satset/temp'' page_a_route [] ''en-US''))"
proof -
  have c: "component page_a_route = ''/proj/src/app/a/page.tsx''"
    by (simp add: page_a_route_def)
  have nc: "\<not> isClientOnlyPage (demo_world async_page) (component page_a_route)"
    by (simp add: demo_world_def)
  have sb: "safeBundle (demo_world async_page) (component page_a_route)
        (compiledServerPath ''/proj/.satset/temp'' (component page_a_route))
       = ([Bundle (BundleOpts ''/proj/src/app/a/page.tsx'' ''/proj/.satset/temp/page.server.js'' (Some True))], None)"
    by (simp add: c compiledServerPath_page safeBundle_def demo_world_def)
  have rq: "require (demo_world async_page) (compiledServerPath ''/proj/.satset/temp'' (component page_a_route))
       = Some (JObj [(''default'', JFun async_page)])"
    by (simp add: c compiledServerPath_page demo_world_def)
  have pc: "resolveExportedComponent (JObj [(''default'', JFun async_page)]) = JFun async_page"
    by (simp add: resolveExportedComponent_def)
  have rp: "render_page (demo_world async_page) ''/proj/.satset/temp'' page_a_route ''en-US'' async_page
       = ([CallComponent async_page], Inl (redirect ''/login'' 307))"
    by (simp add: render_page_def demo_world_def async_page_def)
  have a: "fn_async async_page" by (simp add: async_page_def)
  have cc: "callComponent (demo_world async_page) async_page = Inl (redirect ''/login'' 307)"
    by (simp add: demo_world_def)
  from redirect_short_circuit[OF nc sb rq pc rp login_307_ok, of "[]"] a cc
  have "handlePageRoute (demo_world async_page) ''/proj/.satset/temp'' page_a_route [] ''en-US''
       = ([Bundle (BundleOpts ''/proj/src/app/a/page.tsx'' ''/proj/.satset/temp/page.server.js'' (Some True)),
           Require ''/proj/.satset/temp/page.server.js'',
           CallComponent async_page],
          Sent \<lparr>res_status = 307, res_headers = [(''Location'', ''/login'')], res_body = NoBody\<rparr>)
   \<and> \<not> list_ex is_RenderToString
        (fst (handlePageRoute (demo_world async_page) ''/proj/.satset/temp'' page_a_route [] ''en-US''))"
    by (simp add: c compiledServerPath_page)
  with nc sb rq pc rp a cc login_307_ok show ?thesis by simp
qed








end
